theory Spec2Isabelle
  imports Complex_Main
begin

section \<open>Python values: errors, tensors, broadcasting\<close>

text \<open>
  The program is \<^verbatim>\<open>src/eleanor/models.py\<close>. Its numbers are IEEE floats; the embedding
  computes over \<^typ>\<open>real\<close>, so rounding, \<^verbatim>\<open>inf\<close> and \<^verbatim>\<open>nan\<close> are not represented
  (a quotient by zero is HOL's \<open>x / 0 = 0\<close> where the program yields \<^verbatim>\<open>inf\<close> or
  \<^verbatim>\<open>nan\<close>; the theorems that depend on a quotient assume its divisor is not zero).
  Every exception the program can raise is a value \<open>Inl e\<close>.
\<close>

datatype error =
    ValueError | IndexError | KeyError | AttributeError | NameError | TypeError
  | RecursionError
  | BroadcastError \<comment> \<open>shapes that do not broadcast: torch's RuntimeError, numpy's ValueError\<close>

definition andthen :: "error + 'a \<Rightarrow> ('a \<Rightarrow> error + 'b) \<Rightarrow> error + 'b" where
  "andthen r f = (case r of Inl e \<Rightarrow> Inl e | Inr v \<Rightarrow> f v)"

text \<open>The results of a list of computations, or the first error, in order.\<close>

fun collect :: "(error + 'a) list \<Rightarrow> error + 'a list" where
  "collect [] = Inr []"
| "collect (r # rs) =
     (case r of
        Inl e \<Rightarrow> Inl e
      | Inr v \<Rightarrow> (case collect rs of Inl e \<Rightarrow> Inl e | Inr vs \<Rightarrow> Inr (v # vs)))"

text \<open>
  A tensor (torch) or array (numpy) of at most two dimensions: a scalar, a vector, or a
  matrix given by its rows. Python floats and ints are scalars.
\<close>

datatype tensor = T0 real | T1 "real list" | T2 "real list list"

fun entries :: "tensor \<Rightarrow> real list" where
  "entries (T0 a) = [a]"
| "entries (T1 v) = v"
| "entries (T2 m) = concat m"

fun tmap :: "(real \<Rightarrow> real) \<Rightarrow> tensor \<Rightarrow> tensor" where
  "tmap f (T0 a) = T0 (f a)"
| "tmap f (T1 v) = T1 (map f v)"
| "tmap f (T2 m) = T2 (map (map f) m)"

text \<open>\<^verbatim>\<open>torch.sum(t)\<close>, \<^verbatim>\<open>np.sum(t)\<close>: the sum of all entries, a scalar.\<close>

definition tsum :: "tensor \<Rightarrow> tensor" where
  "tsum t = T0 (sum_list (entries t))"

text \<open>
  Broadcasting of an elementwise binary operation, along one axis: equal lengths pair
  up, a length of one is stretched, anything else is an error.
\<close>

definition bc_row :: "(real \<Rightarrow> real \<Rightarrow> real) \<Rightarrow> real list \<Rightarrow> real list \<Rightarrow> error + real list" where
  "bc_row f u v =
     (if length u = length v then Inr (map2 f u v)
      else if length u = 1 then Inr (map (f (hd u)) v)
      else if length v = 1 then Inr (map (\<lambda>a. f a (hd v)) u)
      else Inl BroadcastError)"

definition bc_mat ::
  "(real \<Rightarrow> real \<Rightarrow> real) \<Rightarrow> real list list \<Rightarrow> real list list \<Rightarrow> error + real list list" where
  "bc_mat f m n =
     (if length m = length n then collect (map2 (bc_row f) m n)
      else if length m = 1 then collect (map (bc_row f (hd m)) n)
      else if length n = 1 then collect (map (\<lambda>r. bc_row f r (hd n)) m)
      else Inl BroadcastError)"

definition as_T1 :: "error + real list \<Rightarrow> error + tensor" where
  "as_T1 r = (case r of Inl e \<Rightarrow> Inl e | Inr v \<Rightarrow> Inr (T1 v))"

definition as_T2 :: "error + real list list \<Rightarrow> error + tensor" where
  "as_T2 r = (case r of Inl e \<Rightarrow> Inl e | Inr m \<Rightarrow> Inr (T2 m))"

text \<open>
  An elementwise binary operation on two tensors: the operand of lower dimension is
  aligned to the last axes of the other, as numpy and torch do.
\<close>

fun bop :: "(real \<Rightarrow> real \<Rightarrow> real) \<Rightarrow> tensor \<Rightarrow> tensor \<Rightarrow> error + tensor" where
  "bop f (T0 a) (T0 b) = Inr (T0 (f a b))"
| "bop f (T0 a) (T1 v) = Inr (T1 (map (f a) v))"
| "bop f (T0 a) (T2 n) = Inr (T2 (map (map (f a)) n))"
| "bop f (T1 u) (T0 b) = Inr (T1 (map (\<lambda>x. f x b) u))"
| "bop f (T1 u) (T1 v) = as_T1 (bc_row f u v)"
| "bop f (T1 u) (T2 n) = as_T2 (collect (map (bc_row f u) n))"
| "bop f (T2 m) (T0 b) = Inr (T2 (map (map (\<lambda>x. f x b)) m))"
| "bop f (T2 m) (T1 v) = as_T2 (collect (map (\<lambda>r. bc_row f r v) m))"
| "bop f (T2 m) (T2 n) = as_T2 (bc_mat f m n)"

text \<open>
  The operators of an expression: the left operand is evaluated first, then the right
  one, then the operation; the first error is the expression's.
\<close>

definition lift2 ::
  "(real \<Rightarrow> real \<Rightarrow> real) \<Rightarrow> error + tensor \<Rightarrow> error + tensor \<Rightarrow> error + tensor" where
  "lift2 f r s =
     (case r of
        Inl e \<Rightarrow> Inl e
      | Inr a \<Rightarrow> (case s of Inl e \<Rightarrow> Inl e | Inr b \<Rightarrow> bop f a b))"

definition lift1 :: "(real \<Rightarrow> real) \<Rightarrow> error + tensor \<Rightarrow> error + tensor" where
  "lift1 f r = (case r of Inl e \<Rightarrow> Inl e | Inr a \<Rightarrow> Inr (tmap f a))"

abbreviation add_r :: "error + tensor \<Rightarrow> error + tensor \<Rightarrow> error + tensor" where
  "add_r \<equiv> lift2 (+)"

abbreviation sub_r :: "error + tensor \<Rightarrow> error + tensor \<Rightarrow> error + tensor" where
  "sub_r \<equiv> lift2 (-)"

abbreviation mul_r :: "error + tensor \<Rightarrow> error + tensor \<Rightarrow> error + tensor" where
  "mul_r \<equiv> lift2 (*)"

abbreviation div_r :: "error + tensor \<Rightarrow> error + tensor \<Rightarrow> error + tensor" where
  "div_r \<equiv> lift2 (/)"

abbreviation neg_r :: "error + tensor \<Rightarrow> error + tensor" where
  "neg_r \<equiv> lift1 uminus"

abbreviation sq_r :: "error + tensor \<Rightarrow> error + tensor" where
  "sq_r \<equiv> lift1 (\<lambda>v. v ^ 2)" \<comment> \<open>\<^verbatim>\<open>t ** 2\<close>\<close>

abbreviation exp_r :: "error + tensor \<Rightarrow> error + tensor" where
  "exp_r \<equiv> lift1 exp"

abbreviation sqrt_r :: "error + tensor \<Rightarrow> error + tensor" where
  "sqrt_r \<equiv> lift1 sqrt"

abbreviation num :: "real \<Rightarrow> error + tensor" where
  "num a \<equiv> Inr (T0 a)"

text \<open>
  \<^verbatim>\<open>x ** y\<close> on floats. For a positive base it is the real power; a negative base with
  a whole exponent gives the signed integer power. In the remaining cases (a negative
  base with a fractional exponent, zero to a negative power) the program yields
  \<^verbatim>\<open>nan\<close> or \<^verbatim>\<open>inf\<close>, which the reals do not have: the value here is 0.
\<close>

definition fpow :: "real \<Rightarrow> real \<Rightarrow> real" where
  "fpow x y =
     (if 0 < x then x powr y
      else if y = of_int \<lfloor>y\<rfloor> then (if 0 \<le> y then x ^ nat \<lfloor>y\<rfloor> else inverse x ^ nat (- \<lfloor>y\<rfloor>))
      else 0)"

text \<open>\<^verbatim>\<open>a, b, ... = t\<close>: unpacking iterates over the first axis and wants exactly n items.\<close>

fun unpack :: "nat \<Rightarrow> tensor \<Rightarrow> error + tensor list" where
  "unpack n (T0 a) = Inl TypeError"
| "unpack n (T1 v) = (if length v = n then Inr (map T0 v) else Inl ValueError)"
| "unpack n (T2 m) = (if length m = n then Inr (map T1 m) else Inl ValueError)"

text \<open>\<^verbatim>\<open>len(t)\<close>, \<^verbatim>\<open>t[i]\<close> for \<open>i \<ge> 0\<close>, \<^verbatim>\<open>t[:k]\<close> and \<^verbatim>\<open>t[k:]\<close>, along the first axis.\<close>

fun tlen :: "tensor \<Rightarrow> error + nat" where
  "tlen (T0 a) = Inl TypeError"
| "tlen (T1 v) = Inr (length v)"
| "tlen (T2 m) = Inr (length m)"

fun tindex :: "tensor \<Rightarrow> nat \<Rightarrow> error + tensor" where
  "tindex (T0 a) i = Inl IndexError"
| "tindex (T1 v) i = (if i < length v then Inr (T0 (v ! i)) else Inl IndexError)"
| "tindex (T2 m) i = (if i < length m then Inr (T1 (m ! i)) else Inl IndexError)"

fun ttake :: "nat \<Rightarrow> tensor \<Rightarrow> error + tensor" where
  "ttake k (T0 a) = Inl IndexError"
| "ttake k (T1 v) = Inr (T1 (take k v))"
| "ttake k (T2 m) = Inr (T2 (take k m))"

fun tdrop :: "nat \<Rightarrow> tensor \<Rightarrow> error + tensor" where
  "tdrop k (T0 a) = Inl IndexError"
| "tdrop k (T1 v) = Inr (T1 (drop k v))"
| "tdrop k (T2 m) = Inr (T2 (drop k m))"

text \<open>\<^verbatim>\<open>xs[j]\<close> on a Python list, for \<open>j \<ge> 0\<close>.\<close>

definition index :: "'a list \<Rightarrow> nat \<Rightarrow> error + 'a" where
  "index xs j = (if j < length xs then Inr (xs ! j) else Inl IndexError)"

text \<open>
  \<^verbatim>\<open>sum(ts)\<close>, Python's builtin: it starts from the int 0 and adds the items from the
  left, so the sum of no items is the scalar 0.
\<close>

definition py_sum :: "tensor list \<Rightarrow> error + tensor" where
  "py_sum ts = foldl (\<lambda>acc t. add_r acc (Inr t)) (num 0) ts"

text \<open>\<^verbatim>\<open>torch.zeros(shape)\<close>.\<close>

definition zeros :: "nat \<times> nat \<Rightarrow> tensor" where
  "zeros shp = T2 (replicate (fst shp) (replicate (snd shp) 0))"

text \<open>The shape of a tensor; a matrix with no rows has no columns to count.\<close>

fun shape_of :: "tensor \<Rightarrow> nat list" where
  "shape_of (T0 a) = []"
| "shape_of (T1 v) = [length v]"
| "shape_of (T2 m) = [length m, (case m of [] \<Rightarrow> 0 | r # _ \<Rightarrow> length r)]"

text \<open>
  \<^verbatim>\<open>acc += t\<close> on a torch tensor adds in place: the broadcast result must have the
  shape of \<^verbatim>\<open>acc\<close>.
\<close>

definition iadd :: "tensor \<Rightarrow> tensor \<Rightarrow> error + tensor" where
  "iadd acc t =
     (case bop (+) acc t of
        Inl e \<Rightarrow> Inl e
      | Inr r \<Rightarrow> if shape_of r = shape_of acc then Inr r else Inl BroadcastError)"

text \<open>A matrix of r rows, each of c entries.\<close>

definition shaped :: "nat \<Rightarrow> nat \<Rightarrow> real list list \<Rightarrow> bool" where
  "shaped r c m = (length m = r \<and> list_all (\<lambda>row. length row = c) m)"

section \<open>The base model\<close>

text \<open>A bound is a float or \<^verbatim>\<open>np.infty\<close>; a row of the bounds table is \<^verbatim>\<open>[lower, upper]\<close>.\<close>

datatype bnd = Fin real | PInf

text \<open>
  The attributes \<^verbatim>\<open>Model.__init__\<close> sets. The grids \<^verbatim>\<open>self.y\<close>, \<^verbatim>\<open>self.x\<close> are the
  fields \<open>grid_y\<close>, \<open>grid_x\<close>. The field \<open>prf_image\<close> is \<^verbatim>\<open>self.prf\<close>, the value of
  \<^verbatim>\<open>make_prf_from_source(source)\<close>, a function of \<^verbatim>\<open>eleanor/prf.py\<close>, which is not among
  the sources: the constructors below take that value in the place of \<^verbatim>\<open>source\<close>.
\<close>

record base =
  shape :: "nat \<times> nat"
  col_ref :: real
  row_ref :: real
  xc :: "real list"
  yc :: "real list"
  bkg0 :: real
  grid_y :: tensor
  grid_x :: tensor
  bounds :: "(bnd \<times> bnd) list"
  loss :: string
  prf_image :: tensor

text \<open>
  One axis of \<^verbatim>\<open>np.mgrid[start:stop:1j*n]\<close>: n points, the stop included. numpy takes
  the step \<open>(stop - start) / (n - 1)\<close> unless \<open>n = 1\<close>, where the step stays 1, and
  point i is \<open>i * step + start\<close>.
\<close>

definition mgrid_axis :: "real \<Rightarrow> real \<Rightarrow> nat \<Rightarrow> real list" where
  "mgrid_axis start stop n =
     (let step = (if n \<noteq> 1 then (stop - start) / (real n - 1) else 1)
      in map (\<lambda>i. real i * step + start) [0..<n])"

text \<open>\<^verbatim>\<open>Model._init_grid\<close>: the pair \<^verbatim>\<open>(self.y, self.x)\<close>.\<close>

definition init_grid :: "nat \<times> nat \<Rightarrow> real \<Rightarrow> real \<Rightarrow> tensor \<times> tensor" where
  "init_grid shp r c =
     (let s1 = fst shp; s2 = snd shp;
          ys = mgrid_axis r (r + real s1 - 1) s1;
          xs = mgrid_axis c (c + real s2 - 1) s2
      in (T2 (map (\<lambda>v. replicate s2 v) ys), T2 (replicate s1 xs)))"

text \<open>\<^verbatim>\<open>Model.__init__(shape, col_ref, row_ref, xc, yc, bkg0, loss, source)\<close>.\<close>

definition Model_init ::
  "nat \<times> nat \<Rightarrow> real \<Rightarrow> real \<Rightarrow> real list \<Rightarrow> real list \<Rightarrow> real \<Rightarrow> string \<Rightarrow> tensor \<Rightarrow> base" where
  "Model_init shp c r xs ys b l p =
     \<lparr> shape = shp, col_ref = c, row_ref = r, xc = xs, yc = ys, bkg0 = b,
       grid_y = fst (init_grid shp r c), grid_x = snd (init_grid shp r c),
       bounds = replicate (length xs) (Fin 0, PInf)
                @ [(Fin (- 2), Fin 2), (Fin (- 2), Fin 2), (Fin 0, PInf)],
       loss = l, prf_image = p \<rparr>"

section \<open>The instances of the classes\<close>

text \<open>
  The tables of a \<^verbatim>\<open>zernike.Zern\<close> object that the program reads: the number of modes
  and the azimuthal frequency of each mode.
\<close>

record zern =
  nk :: nat
  mtab :: "int list"

text \<open>
  The attributes \<^verbatim>\<open>Zernike.__init__\<close> adds; \<^verbatim>\<open>self.z\<close> is the field \<open>z_basis\<close>. The
  dictionaries \<^verbatim>\<open>cache\<close> and \<^verbatim>\<open>coords\<close> are filled for the keys 0, 1, 2, ... in
  order, so each is the list of its values, and a key past the end is a KeyError.
\<close>

record zernike_attrs =
  z_basis :: zern
  zpars :: "real list"
  mode_mask :: "int list"
  cache :: "tensor list list"
  coords :: "(tensor \<times> tensor) list"

text \<open>
  An instance of one of the classes. \<open>Plain\<close> is an instance of \<^verbatim>\<open>Model\<close> itself. A
  \<^verbatim>\<open>PRFWrap\<close> has the single attribute \<^verbatim>\<open>submodel\<close>: its \<^verbatim>\<open>__init__\<close> does not call
  \<^verbatim>\<open>Model.__init__\<close>. \<open>Foreign\<close> is an object of a class outside the module, such as the
  dictionary that \<^verbatim>\<open>dict(**kwargs)\<close> builds: it can be the submodel of a \<^verbatim>\<open>PRFWrap\<close>, and it
  has none of the attributes and methods of a model.
\<close>

datatype model =
    Plain base
  | Gaussian base
  | Moffat base
  | Airy base
  | Zernike base zernike_attrs
  | PRFWrap model
  | Foreign

text \<open>
  Reading an attribute that \<^verbatim>\<open>Model.__init__\<close> sets (\<^verbatim>\<open>self.x\<close>, \<^verbatim>\<open>self.xc\<close>,
  \<^verbatim>\<open>self.bounds\<close>, \<^verbatim>\<open>self.prf\<close>, ...): an AttributeError on a \<^verbatim>\<open>PRFWrap\<close> and on a
  foreign object.
\<close>

fun attrs :: "model \<Rightarrow> error + base" where
  "attrs (Plain b) = Inr b"
| "attrs (Gaussian b) = Inr b"
| "attrs (Moffat b) = Inr b"
| "attrs (Airy b) = Inr b"
| "attrs (Zernike b za) = Inr b"
| "attrs (PRFWrap sub) = Inl AttributeError"
| "attrs Foreign = Inl AttributeError"

definition get_bounds :: "model \<Rightarrow> error + (bnd \<times> bnd) list" where
  "get_bounds m = andthen (attrs m) (\<lambda>b. Inr (bounds b))"

section \<open>The external libraries\<close>

text \<open>
  The keyword arguments of a constructor call: \<^verbatim>\<open>shape\<close>, \<^verbatim>\<open>col_ref\<close>, \<^verbatim>\<open>row_ref\<close>,
  \<^verbatim>\<open>xc\<close>, \<^verbatim>\<open>yc\<close>, \<^verbatim>\<open>bkg0\<close>, \<^verbatim>\<open>loss\<close> and (in the place of \<^verbatim>\<open>source\<close>) the reference
  image.
\<close>

type_synonym kwargs =
  "(nat \<times> nat) \<times> real \<times> real \<times> real list \<times> real list \<times> real \<times> string \<times> tensor"

text \<open>
  What the program takes from libraries and from the interpreter, and this development
  does not define: \<^verbatim>\<open>scipy.special.iv(nu, x)\<close>; the tables \<^verbatim>\<open>Zern(n)\<close> builds
  (\<^verbatim>\<open>TorchZern(n)\<close> and \<^verbatim>\<open>RZern(n)\<close> share them); the solver, where \<open>minimize f p0\<close> is
  \<^verbatim>\<open>sopt.minimize(f, p0, method='TNC', tol=1e-1).x\<close> or the error it raises; and
  \<^verbatim>\<open>eval(s)\<close> for a string s that is not the bare name of a class of the module, where
  \<open>py_eval s\<close> is the error \<^verbatim>\<open>eval\<close> raises or the value it returns, given by what
  calling that value with the keyword arguments does: raise, or return an object.
\<close>

record ext =
  iv :: "real \<Rightarrow> real \<Rightarrow> real"
  Zern :: "nat \<Rightarrow> zern"
  minimize :: "(tensor \<Rightarrow> error + tensor) \<Rightarrow> tensor \<Rightarrow> error + real list"
  py_eval :: "string \<Rightarrow> error + (kwargs \<Rightarrow> error + model)"

text \<open>\<^verbatim>\<open>atan2(y, x)\<close> of torch and numpy, without the signed zeros of the floats.\<close>

definition atan2 :: "real \<Rightarrow> real \<Rightarrow> real" where
  "atan2 y x =
     (if 0 < x then arctan (y / x)
      else if x < 0 \<and> 0 \<le> y then arctan (y / x) + pi
      else if x < 0 then arctan (y / x) - pi
      else if 0 < y then pi / 2
      else if y < 0 then - pi / 2
      else 0)"

text \<open>
  \<^verbatim>\<open>scipy.signal.convolve2d(a, k)\<close> in its default mode, the full convolution: both
  arguments are matrices, and the output has \<open>ra + rk - 1\<close> rows and \<open>ca + ck - 1\<close>
  columns.
\<close>

definition ncols :: "real list list \<Rightarrow> nat" where
  "ncols m = (case m of [] \<Rightarrow> 0 | r # _ \<Rightarrow> length r)"

definition conv_at :: "real list list \<Rightarrow> real list list \<Rightarrow> nat \<Rightarrow> nat \<Rightarrow> real" where
  "conv_at a k i j =
     sum_list (map (\<lambda>p. sum_list (map (\<lambda>q.
        if p \<le> i \<and> i - p < length k \<and> q \<le> j \<and> j - q < ncols k
        then a ! p ! q * k ! (i - p) ! (j - q) else 0) [0..<ncols a])) [0..<length a])"

fun convolve2d :: "tensor \<Rightarrow> tensor \<Rightarrow> error + tensor" where
  "convolve2d (T2 a) (T2 k) =
     Inr (T2 (map (\<lambda>i. map (\<lambda>j. conv_at a k i j) [0..<ncols a + ncols k - 1])
                [0..<length a + length k - 1]))"
| "convolve2d a k = Inl ValueError"

section \<open>The modified Bessel primitive\<close>

text \<open>
  The order handed to the primitive is a Python number or a torch tensor.
\<close>

datatype order = Number real | Tensor_order tensor

text \<open>
  \<^verbatim>\<open>ModifiedBesselFn\<close>. The context keeps the order \<^verbatim>\<open>ctx._nu\<close> and the saved tensors.
  \<^verbatim>\<open>scipy.special.iv\<close> broadcasts its two arguments. For a number order and a scalar
  input it returns a numpy scalar, and for a tensor order it returns a torch tensor:
  \<^verbatim>\<open>torch.from_numpy\<close> refuses both with a TypeError.
\<close>

record ctx =
  nu_attr :: order
  saved_tensors :: "tensor list"

definition forward :: "ext \<Rightarrow> tensor \<Rightarrow> order \<Rightarrow> error + (ctx \<times> tensor)" where
  "forward L inp nu =
     (case nu of
        Number n \<Rightarrow>
          (case bop (\<lambda>n x. iv L n x) (T0 n) inp of
             Inl e \<Rightarrow> Inl e
           | Inr (T0 a) \<Rightarrow> Inl TypeError
           | Inr r \<Rightarrow> Inr (\<lparr> nu_attr = nu, saved_tensors = [inp] \<rparr>, r))
      | Tensor_order t \<Rightarrow>
          (case bop (\<lambda>n x. iv L n x) t inp of
             Inl e \<Rightarrow> Inl e
           | Inr r \<Rightarrow> Inl TypeError))"

text \<open>\<^verbatim>\<open>modified_bessel = ModifiedBesselFn.apply\<close>: the value of the forward pass.\<close>

definition modified_bessel :: "ext \<Rightarrow> error + tensor \<Rightarrow> error + order \<Rightarrow> error + tensor" where
  "modified_bessel L inp nu =
     (case inp of
        Inl e \<Rightarrow> Inl e
      | Inr i \<Rightarrow>
         (case nu of
            Inl e \<Rightarrow> Inl e
          | Inr n \<Rightarrow> (case forward L i n of Inl e \<Rightarrow> Inl e | Inr cr \<Rightarrow> Inr (snd cr))))"

text \<open>\<^verbatim>\<open>nu - d\<close> and \<^verbatim>\<open>nu + d\<close> for an order and a float d.\<close>

fun order_op :: "(real \<Rightarrow> real \<Rightarrow> real) \<Rightarrow> order \<Rightarrow> real \<Rightarrow> error + order" where
  "order_op f (Number n) d = Inr (Number (f n d))"
| "order_op f (Tensor_order t) d =
     (case lift2 f (Inr t) (num d) of Inl e \<Rightarrow> Inl e | Inr u \<Rightarrow> Inr (Tensor_order u))"

text \<open>
  \<^verbatim>\<open>ModifiedBesselFn.backward(ctx, grad_out)\<close>: the pair of the gradient with respect
  to the input and \<^verbatim>\<open>None\<close> for the order.
\<close>

definition backward :: "ext \<Rightarrow> ctx \<Rightarrow> tensor \<Rightarrow> error + (tensor \<times> tensor option)" where
  "backward L c grad_out =
     (case saved_tensors c of
        [inp] \<Rightarrow>
          (let nu = nu_attr c in
           case mul_r (mul_r (num 0.5) (Inr grad_out))
                  (add_r (modified_bessel L (Inr inp) (order_op (-) nu 1.0))
                         (modified_bessel L (Inr inp) (order_op (+) nu 1.0))) of
             Inl e \<Rightarrow> Inl e
           | Inr g \<Rightarrow> Inr (g, None))
      | _ \<Rightarrow> Inl ValueError)"

section \<open>The shape models\<close>

text \<open>\<^verbatim>\<open>Gaussian.psf(self, dx, dy, params, j)\<close>.\<close>

definition Gaussian_psf :: "tensor \<Rightarrow> tensor \<Rightarrow> tensor \<Rightarrow> nat \<Rightarrow> error + tensor" where
  "Gaussian_psf dx dy params j =
     andthen (unpack 3 params) (\<lambda>ps.
       case ps of
         [a, b, c] \<Rightarrow>
           exp_r (neg_r (add_r (add_r (mul_r (Inr a) (sq_r (Inr dx)))
                                      (mul_r (mul_r (mul_r (num 2) (Inr b)) (Inr dx)) (Inr dy)))
                               (mul_r (Inr c) (sq_r (Inr dy)))))
       | _ \<Rightarrow> Inl ValueError)"

text \<open>\<^verbatim>\<open>Moffat.psf(self, params, dx, dy, j)\<close>: the parameters come first in its signature.\<close>

definition Moffat_psf :: "tensor \<Rightarrow> tensor \<Rightarrow> tensor \<Rightarrow> nat \<Rightarrow> error + tensor" where
  "Moffat_psf params dx dy j =
     andthen (unpack 4 params) (\<lambda>ps.
       case ps of
         [a, b, c, beta] \<Rightarrow>
           div_r (num 1)
             (lift2 fpow
                (add_r (add_r (add_r (num 1) (mul_r (Inr a) (sq_r (Inr dx))))
                              (mul_r (mul_r (mul_r (num 2) (Inr b)) (Inr dx)) (Inr dy)))
                       (mul_r (Inr c) (sq_r (Inr dy))))
                (sq_r (Inr beta)))
       | _ \<Rightarrow> Inl ValueError)"

text \<open>
  \<^verbatim>\<open>Airy.psf(self, dx, dy, params, j)\<close>. It calls \<^verbatim>\<open>modified_bessel(torch.tensor(1),
  bessel_arg)\<close>: the input of the primitive is the scalar 1 and its order is the tensor
  \<^verbatim>\<open>bessel_arg\<close>.
\<close>

definition Airy_psf :: "ext \<Rightarrow> tensor \<Rightarrow> tensor \<Rightarrow> tensor \<Rightarrow> nat \<Rightarrow> error + tensor" where
  "Airy_psf L dx dy params j =
     (let Rn = params;
          r = sqrt_r (add_r (sq_r (Inr dx)) (sq_r (Inr dy)));
          bessel_arg = div_r (mul_r (num pi) r) (Inr Rn)
      in sq_r (div_r (mul_r (num 2)
                        (modified_bessel L (num 1)
                           (case bessel_arg of Inl e \<Rightarrow> Inl e | Inr t \<Rightarrow> Inr (Tensor_order t))))
                     bessel_arg))"

text \<open>\<^verbatim>\<open>TorchZern.angular(self, j, theta)\<close>; \<^verbatim>\<open>RZern.angular\<close> of the library is the same.\<close>

definition angular :: "zern \<Rightarrow> nat \<Rightarrow> tensor \<Rightarrow> error + tensor" where
  "angular z j theta =
     (if j < length (mtab z) then
        (let m = mtab z ! j in
         if 0 \<le> m then Inr (tmap (\<lambda>t. cos (real_of_int m * t)) theta)
         else Inr (tmap (\<lambda>t. sin (real_of_int (- m) * t)) theta))
      else Inl IndexError)"

text \<open>\<^verbatim>\<open>self.cache[j][i]\<close>.\<close>

definition cache_get :: "tensor list list \<Rightarrow> nat \<Rightarrow> nat \<Rightarrow> error + tensor" where
  "cache_get c j i =
     (if j < length c then (if i < length (c ! j) then Inr (c ! j ! i) else Inl KeyError)
      else Inl KeyError)"

text \<open>
  The loop of \<^verbatim>\<open>Zernike.psf\<close> over the mode indices still to visit, with the
  accumulator \<^verbatim>\<open>psf_c\<close>.
\<close>

fun zern_loop :: "zernike_attrs \<Rightarrow> tensor \<Rightarrow> nat \<Rightarrow> nat list \<Rightarrow> tensor \<Rightarrow> error + tensor" where
  "zern_loop za zp j [] psf_c = Inr psf_c"
| "zern_loop za zp j (i # rest) psf_c =
     (if i < length (mode_mask za) then
        andthen (tindex zp i) (\<lambda>p.
          if mode_mask za ! i \<noteq> 0 then
            andthen (cache_get (cache za) j i) (\<lambda>img.
            andthen (bop (*) p img) (\<lambda>t.
            andthen (iadd psf_c t) (\<lambda>acc. zern_loop za zp j rest acc)))
          else zern_loop za zp j rest psf_c)
      else Inl IndexError)"

text \<open>\<^verbatim>\<open>Zernike.psf(self, dx, dy, params, j)\<close>.\<close>

definition Zernike_psf ::
  "base \<Rightarrow> zernike_attrs \<Rightarrow> tensor \<Rightarrow> tensor \<Rightarrow> tensor \<Rightarrow> nat \<Rightarrow> error + tensor" where
  "Zernike_psf b za dx dy params j =
     andthen (ttake 2 params) (\<lambda>head.
     andthen (tdrop 2 params) (\<lambda>zp.
     andthen (unpack 2 head) (\<lambda>ac.
       case ac of
         [a, c] \<Rightarrow>
           andthen (tlen zp) (\<lambda>n.
           andthen (zern_loop za zp j [0..<n] (zeros (shape b))) (\<lambda>psf_c.
             mul_r (exp_r (Inr psf_c))
                   (exp_r (sub_r (mul_r (neg_r (Inr a)) (sq_r (Inr dx)))
                                 (mul_r (Inr c) (sq_r (Inr dy)))))))
       | _ \<Rightarrow> Inl ValueError)))"

text \<open>
  \<^verbatim>\<open>self.psf(dx, dy, params, j)\<close>, as \<^verbatim>\<open>Model.evaluate\<close> calls it: the four arguments are
  passed by position to the method of the instance's class. \<^verbatim>\<open>Model\<close> has no method
  \<^verbatim>\<open>psf\<close>. \<^verbatim>\<open>PRFWrap.psf\<close> evaluates the submodel's density and then reads
  \<^verbatim>\<open>self.prf\<close>.
\<close>

fun psf :: "ext \<Rightarrow> model \<Rightarrow> tensor \<Rightarrow> tensor \<Rightarrow> tensor \<Rightarrow> nat \<Rightarrow> error + tensor" where
  "psf L (Plain b) dx dy params j = Inl AttributeError"
| "psf L (Gaussian b) dx dy params j = Gaussian_psf dx dy params j"
| "psf L (Moffat b) dx dy params j = Moffat_psf dx dy params j"
| "psf L (Airy b) dx dy params j = Airy_psf L dx dy params j"
| "psf L (Zernike b za) dx dy params j = Zernike_psf b za dx dy params j"
| "psf L (PRFWrap sub) dx dy params j =
     andthen (psf L sub dx dy params j) (\<lambda>d.
     andthen (attrs (PRFWrap sub)) (\<lambda>b. convolve2d d (prf_image b)))"
| "psf L Foreign dx dy params j = Inl AttributeError"

section \<open>Evaluation of the base model\<close>

text \<open>
  The first two lines of \<^verbatim>\<open>Model.evaluate\<close>: the offsets \<^verbatim>\<open>(dx, dy)\<close> of star j. The
  star index is a natural number (Python's negative indices are left out).
\<close>

definition offsets :: "model \<Rightarrow> real \<Rightarrow> real \<Rightarrow> nat \<Rightarrow> error + (tensor \<times> tensor)" where
  "offsets m xs ys j =
     andthen (attrs m) (\<lambda>b.
     andthen (index (xc b) j) (\<lambda>xcj.
     andthen (sub_r (Inr (grid_x b)) (num (xcj + xs))) (\<lambda>dx.
     andthen (index (yc b) j) (\<lambda>ycj.
     andthen (sub_r (Inr (grid_y b)) (num (ycj + ys))) (\<lambda>dy. Inr (dx, dy))))))"

text \<open>
  \<^verbatim>\<open>Model.evaluate(self, flux, xs, ys, params, j, norm=True)\<close>; the flag \<^verbatim>\<open>norm\<close> is
  written \<open>nrm\<close>.
\<close>

definition evaluate ::
  "ext \<Rightarrow> model \<Rightarrow> real \<Rightarrow> real \<Rightarrow> real \<Rightarrow> tensor \<Rightarrow> nat \<Rightarrow> bool \<Rightarrow> error + tensor" where
  "evaluate L m flux xs ys params j nrm =
     andthen (offsets m xs ys j) (\<lambda>d.
     andthen (psf L m (fst d) (snd d) params j) (\<lambda>p.
       let psf_sum = (if nrm then tsum p else T0 1)
       in div_r (mul_r (num flux) (Inr p)) (Inr psf_sum)))"

text \<open>\<^verbatim>\<open>Model.mean(self, flux, xshift, yshift, bkg, optpars, norm=True)\<close>.\<close>

definition mean ::
  "ext \<Rightarrow> model \<Rightarrow> real list \<Rightarrow> real \<Rightarrow> real \<Rightarrow> real \<Rightarrow> tensor \<Rightarrow> bool \<Rightarrow> error + tensor" where
  "mean L m flux xshift yshift bkg optpars nrm =
     andthen (attrs m) (\<lambda>b.
     andthen (collect (map (\<lambda>j. andthen (index flux j) (\<lambda>f.
                                   evaluate L m f xshift yshift optpars j nrm))
                           [0..<length (xc b)])) (\<lambda>es.
       add_r (py_sum es) (num bkg)))"

text \<open>\<^verbatim>\<open>get_default_optpars\<close>: \<^verbatim>\<open>Model\<close> and \<^verbatim>\<open>Airy\<close> do not define it.\<close>

fun get_default_optpars :: "model \<Rightarrow> error + real list" where
  "get_default_optpars (Plain b) = Inl AttributeError"
| "get_default_optpars (Gaussian b) = Inr [1, 0, 1]"
| "get_default_optpars (Moffat b) = Inr [1, 0, 1, 1]"
| "get_default_optpars (Airy b) = Inl AttributeError"
| "get_default_optpars (Zernike b za) = Inr ([0.53327668, 0.53815343] @ zpars za)"
| "get_default_optpars (PRFWrap sub) = get_default_optpars sub"
| "get_default_optpars Foreign = Inl AttributeError"

text \<open>\<^verbatim>\<open>np.max(d0)\<close>: the greatest entry; a ValueError on an array with no entries.\<close>

definition np_max :: "tensor \<Rightarrow> error + real" where
  "np_max d0 = (case entries d0 of [] \<Rightarrow> Inl ValueError | v # vs \<Rightarrow> Inr (foldl max v vs))"

text \<open>\<^verbatim>\<open>Model.get_default_par(self, d0)\<close>.\<close>

definition get_default_par :: "model \<Rightarrow> tensor \<Rightarrow> error + real list" where
  "get_default_par m d0 =
     andthen (np_max d0) (\<lambda>mx.
     andthen (attrs m) (\<lambda>b.
     andthen (get_default_optpars m) (\<lambda>opt.
       Inr (replicate (length (xc b)) mx @ [0, 0, bkg0 b] @ opt))))"

section \<open>Construction\<close>

text \<open>
  The constructors take the arguments of \<^verbatim>\<open>Model.__init__\<close> in its order. \<^verbatim>\<open>Gaussian\<close> and
  \<^verbatim>\<open>Moffat\<close> stack their own rows under the base rows of the bounds table; \<^verbatim>\<open>Airy\<close> adds
  nothing (its warning is not modelled).
\<close>

definition Gaussian_init ::
  "nat \<times> nat \<Rightarrow> real \<Rightarrow> real \<Rightarrow> real list \<Rightarrow> real list \<Rightarrow> real \<Rightarrow> string \<Rightarrow> tensor \<Rightarrow> model" where
  "Gaussian_init shp c r xs ys b l p =
     (let self = Model_init shp c r xs ys b l p
      in Gaussian (self\<lparr>bounds := bounds self
                     @ [(Fin 0, PInf), (Fin (- 0.5), Fin 0.5), (Fin 0, PInf)]\<rparr>))"

definition Moffat_init ::
  "nat \<times> nat \<Rightarrow> real \<Rightarrow> real \<Rightarrow> real list \<Rightarrow> real list \<Rightarrow> real \<Rightarrow> string \<Rightarrow> tensor \<Rightarrow> model" where
  "Moffat_init shp c r xs ys b l p =
     (let self = Model_init shp c r xs ys b l p
      in Moffat (self\<lparr>bounds := bounds self
                   @ [(Fin 0, PInf), (Fin (- 0.5), Fin 0.5), (Fin 0, PInf), (Fin 0.0, PInf)]\<rparr>))"

definition Airy_init ::
  "nat \<times> nat \<Rightarrow> real \<Rightarrow> real \<Rightarrow> real list \<Rightarrow> real list \<Rightarrow> real \<Rightarrow> string \<Rightarrow> tensor \<Rightarrow> model" where
  "Airy_init shp c r xs ys b l p = Airy (Model_init shp c r xs ys b l p)"

subsection \<open>The Zernike model\<close>

text \<open>Iterating over a tensor, \<^verbatim>\<open>np.linspace(start, stop, n)\<close> and \<^verbatim>\<open>np.meshgrid(a, b)\<close>.\<close>

fun titems :: "tensor \<Rightarrow> error + tensor list" where
  "titems (T0 a) = Inl TypeError"
| "titems (T1 v) = Inr (map T0 v)"
| "titems (T2 m) = Inr (map T1 m)"

definition linspace :: "real \<Rightarrow> real \<Rightarrow> nat \<Rightarrow> real list" where
  "linspace start stop n =
     (if n = 1 then [start]
      else map (\<lambda>i. start + real i * ((stop - start) / (real n - 1))) [0..<n])"

definition meshgrid :: "real list \<Rightarrow> real list \<Rightarrow> tensor \<times> tensor" where
  "meshgrid a b = (T2 (replicate (length b) a), T2 (map (\<lambda>v. replicate (length a) v) b))"

text \<open>
  The local function \<^verbatim>\<open>gaussian_with_zernike(coords, params)\<close> of \<^verbatim>\<open>Zernike.__init__\<close>,
  and the objective that is handed to the solver.
\<close>

definition gaussian_with_zernike :: "zern \<Rightarrow> tensor \<times> tensor \<Rightarrow> tensor \<Rightarrow> error + tensor" where
  "gaussian_with_zernike rz crds params =
     andthen (ttake 5 params) (\<lambda>head.
     andthen (unpack 5 head) (\<lambda>ps.
       case ps of
         [A, xo, yo, a, offset] \<Rightarrow>
           andthen (sub_r (Inr (fst crds)) (Inr xo)) (\<lambda>dx.
           andthen (sub_r (Inr (snd crds)) (Inr yo)) (\<lambda>dy.
             add_r (Inr offset)
               (mul_r (mul_r (Inr A)
                             (exp_r (mul_r (neg_r (Inr a)) (add_r (sq_r (Inr dx)) (sq_r (Inr dy))))))
                      (andthen (tdrop 5 params) (\<lambda>rest.
                       andthen (titems rest) (\<lambda>items.
                       andthen (collect (map (\<lambda>ip.
                                  mul_r (Inr (snd ip))
                                    (andthen (lift2 atan2 (Inr dy) (Inr dx)) (\<lambda>theta.
                                       angular rz (fst ip) theta)))
                                  (enumerate 0 items)))
                         py_sum))))))
       | _ \<Rightarrow> Inl ValueError))"

definition calibration_objective ::
  "tensor \<Rightarrow> zern \<Rightarrow> tensor \<times> tensor \<Rightarrow> tensor \<Rightarrow> error + tensor" where
  "calibration_objective p_img rz crds p =
     andthen (sq_r (sub_r (Inr p_img) (gaussian_with_zernike rz crds p))) (\<lambda>d. Inr (tsum d))"

text \<open>The literal that \<^verbatim>\<open>Zernike.__init__\<close> assigns to \<^verbatim>\<open>self.zpars\<close>.\<close>

definition zpars_literal :: "real list" where
  "zpars_literal =
     [0.2567228, 0.45743718, - 0.28847825, 0.2567228, - 0.0757324, 0.11844995,
      - 0.28847825, 0.45743718, - 0.04414153, - 0.04167375, 0.2567228, 0.11844995,
      - 0.0757324, 0.02526562, 0.07075336]"

text \<open>\<^verbatim>\<open>Zernike.get_polar_coords(self, xo, yo)\<close>.\<close>

definition get_polar_coords :: "base \<Rightarrow> real \<Rightarrow> real \<Rightarrow> error + (tensor \<times> tensor)" where
  "get_polar_coords b xo yo =
     andthen (sub_r (Inr (grid_x b)) (num xo)) (\<lambda>dx.
     andthen (sub_r (Inr (grid_y b)) (num yo)) (\<lambda>dy.
     andthen (sqrt_r (add_r (sq_r (Inr dx)) (sq_r (Inr dy)))) (\<lambda>rho.
     andthen (lift2 atan2 (Inr dy) (Inr dx)) (\<lambda>theta. Inr (rho, theta)))))"

text \<open>
  The body of the inner loop of the constructor, for mode k: the angular basis image
  where the mask is set, an image of zeros where it is not.
\<close>

definition cache_entry :: "zern \<Rightarrow> int list \<Rightarrow> nat \<times> nat \<Rightarrow> tensor \<Rightarrow> nat \<Rightarrow> error + tensor" where
  "cache_entry z msk shp theta k =
     (if k < length msk then
        (if msk ! k \<noteq> 0 then angular z k theta else Inr (zeros shp))
      else Inl IndexError)"

text \<open>The body of the outer loop, for star j: its polar coordinates and its cache.\<close>

definition star_entry ::
  "base \<Rightarrow> zern \<Rightarrow> int list \<Rightarrow> nat \<Rightarrow> error + ((tensor \<times> tensor) \<times> tensor list)" where
  "star_entry b z msk j =
     andthen (index (xc b) j) (\<lambda>xo.
     andthen (index (yc b) j) (\<lambda>yo.
     andthen (get_polar_coords b xo yo) (\<lambda>rt.
     andthen (collect (map (cache_entry z msk (shape b) (snd rt)) [0..<nk z])) (\<lambda>cs.
       Inr (rt, cs)))))"

text \<open>
  The constructor from the assignment of \<^verbatim>\<open>self.mode_mask\<close> on, as a function of the
  coefficients \<^verbatim>\<open>self.zpars\<close> and of the local \<^verbatim>\<open>cutoff\<close>.
\<close>

definition Zernike_build :: "base \<Rightarrow> zern \<Rightarrow> real list \<Rightarrow> real \<Rightarrow> error + model" where
  "Zernike_build b z zp cutoff =
     (let msk = map (\<lambda>v. if \<bar>v\<bar> > cutoff then 1 else 0) zp
      in andthen (collect (map (star_entry b z msk) [0..<length (xc b)])) (\<lambda>stars.
           Inr (Zernike b \<lparr> z_basis = z, zpars = zp, mode_mask = msk,
                            cache = map snd stars, coords = map fst stars \<rparr>)))"

text \<open>
  \<^verbatim>\<open>Zernike.__init__(shape, col_ref, row_ref, xc, yc, bkg0, loss, source, zern_n=4)\<close>:
  the calibration fit runs, its coefficients \<^verbatim>\<open>res.x[5:]\<close> are assigned to
  \<^verbatim>\<open>self.zpars\<close>, and the next statement assigns the literal.
\<close>

definition Zernike_init ::
  "ext \<Rightarrow> nat \<times> nat \<Rightarrow> real \<Rightarrow> real \<Rightarrow> real list \<Rightarrow> real list \<Rightarrow> real \<Rightarrow> string \<Rightarrow> tensor \<Rightarrow> nat
     \<Rightarrow> error + model" where
  "Zernike_init L shp c r xs ys b l p zern_n =
     (let cutoff = 0;
          self = Model_init shp c r xs ys b l p;
          z = Zern L zern_n;
          rz = Zern L zern_n;
          p0 = T1 ([1, 0, 0, 1 / 1000, 0] @ replicate (nk z) 0);
          grid = meshgrid (linspace (- 1) 1 117) (linspace (- 1) 1 117)
      in andthen (minimize L (calibration_objective (prf_image self) rz grid) p0) (\<lambda>res_x.
           let fitted = drop 5 res_x;
               literal = zpars_literal
           in Zernike_build self z literal cutoff))"

subsection \<open>The convolution wrapper\<close>

text \<open>
  \<^verbatim>\<open>PRFWrap.__init__(**kwargs)\<close> evaluates the string \<^verbatim>\<open>kwargs.get('model')\<close> and calls
  the result with all keyword arguments. No string at all (\<^verbatim>\<open>None\<close>) is a TypeError of
  \<^verbatim>\<open>eval\<close>. The bare name of a class of the module evaluates to that class:
  \<^verbatim>\<open>Zernike.__init__\<close> takes no keyword \<^verbatim>\<open>model\<close>, and \<^verbatim>\<open>PRFWrap\<close> wrapping \<^verbatim>\<open>PRFWrap\<close>
  calls itself without end. Any other string is left to \<open>py_eval\<close>.
\<close>

datatype cls = Cls_Model | Cls_PRFWrap | Cls_Gaussian | Cls_Moffat | Cls_Airy | Cls_Zernike

definition class_named :: "string \<Rightarrow> cls option" where
  "class_named s =
     (if s = ''Model'' then Some Cls_Model
      else if s = ''PRFWrap'' then Some Cls_PRFWrap
      else if s = ''Gaussian'' then Some Cls_Gaussian
      else if s = ''Moffat'' then Some Cls_Moffat
      else if s = ''Airy'' then Some Cls_Airy
      else if s = ''Zernike'' then Some Cls_Zernike
      else None)"

definition PRFWrap_init ::
  "ext \<Rightarrow> string option \<Rightarrow> nat \<times> nat \<Rightarrow> real \<Rightarrow> real \<Rightarrow> real list \<Rightarrow> real list \<Rightarrow> real \<Rightarrow> string
     \<Rightarrow> tensor \<Rightarrow> error + model" where
  "PRFWrap_init L name shp c r xs ys b l p =
     (case name of
        None \<Rightarrow> Inl TypeError
      | Some s \<Rightarrow>
         (case class_named s of
            None \<Rightarrow>
              andthen (py_eval L s) (\<lambda>callee.
              andthen (callee (shp, c, r, xs, ys, b, l, p)) (\<lambda>sub. Inr (PRFWrap sub)))
          | Some Cls_Model \<Rightarrow> Inr (PRFWrap (Plain (Model_init shp c r xs ys b l p)))
          | Some Cls_PRFWrap \<Rightarrow> Inl RecursionError
          | Some Cls_Gaussian \<Rightarrow> Inr (PRFWrap (Gaussian_init shp c r xs ys b l p))
          | Some Cls_Moffat \<Rightarrow> Inr (PRFWrap (Moffat_init shp c r xs ys b l p))
          | Some Cls_Airy \<Rightarrow> Inr (PRFWrap (Airy_init shp c r xs ys b l p))
          | Some Cls_Zernike \<Rightarrow> Inl TypeError))"

section \<open>Notions used in the statements\<close>

text \<open>
  A model that one of the constructors running \<^verbatim>\<open>Model.__init__\<close> returns for the given
  arguments: \<^verbatim>\<open>Model\<close>, \<^verbatim>\<open>Gaussian\<close>, \<^verbatim>\<open>Moffat\<close>, \<^verbatim>\<open>Airy\<close>, or \<^verbatim>\<open>Zernike\<close> for some order.
\<close>

definition built_from ::
  "ext \<Rightarrow> nat \<times> nat \<Rightarrow> real \<Rightarrow> real \<Rightarrow> real list \<Rightarrow> real list \<Rightarrow> real \<Rightarrow> string \<Rightarrow> tensor
     \<Rightarrow> model \<Rightarrow> bool" where
  "built_from L shp c r xs ys b l p m =
     (m = Plain (Model_init shp c r xs ys b l p)
      \<or> m = Gaussian_init shp c r xs ys b l p
      \<or> m = Moffat_init shp c r xs ys b l p
      \<or> m = Airy_init shp c r xs ys b l p
      \<or> (\<exists>n. Zernike_init L shp c r xs ys b l p n = Inr m))"

text \<open>
  The three rows of \<^verbatim>\<open>self.bounds\<close> that follow the rows of the stars' fluxes, and the
  attribute \<^verbatim>\<open>self.zpars\<close>, which only a \<^verbatim>\<open>Zernike\<close> has.
\<close>

definition shared_rows :: "model \<Rightarrow> error + (bnd \<times> bnd) list" where
  "shared_rows m = andthen (attrs m) (\<lambda>b. Inr (take 3 (drop (length (xc b)) (bounds b))))"

fun get_zpars :: "model \<Rightarrow> error + real list" where
  "get_zpars (Zernike b za) = Inr (zpars za)"
| "get_zpars m = Inl AttributeError"

text \<open>A result that is an image: a matrix of r rows and c columns, and no error.\<close>

definition img :: "nat \<Rightarrow> nat \<Rightarrow> error + tensor \<Rightarrow> bool" where
  "img r c res = (\<exists>m. res = Inr (T2 m) \<and> shaped r c m)"

text \<open>
  Libraries for the examples: the mode table of \<^verbatim>\<open>Zern(4)\<close> in Noll's order, a solver
  that returns its starting point, a constant in the place of the Bessel function
  (no example evaluates the Airy model), and an \<^verbatim>\<open>eval\<close> that knows no name but the
  classes of the module.
\<close>

definition ext_example :: ext where
  "ext_example =
     \<lparr> iv = (\<lambda>nu x. 1),
       Zern = (\<lambda>n. \<lparr> nk = 15, mtab = [0, 1, - 1, 0, - 2, 2, - 1, 1, - 3, 3, 0, 2, - 2, 4, - 4] \<rparr>),
       minimize = (\<lambda>f p0. Inr (entries p0)),
       py_eval = (\<lambda>s. Inl NameError) \<rparr>"

section \<open>Auxiliary facts: errors, shapes, broadcasting, the grid\<close>

lemma andthen_Inr [simp]: "andthen (Inr v) f = f v"
  by (simp add: andthen_def)

lemma andthen_Inl [simp]: "andthen (Inl e) f = Inl e"
  by (simp add: andthen_def)

lemma andthen_eq_Inr: "andthen r f = Inr y \<longleftrightarrow> (\<exists>v. r = Inr v \<and> f v = Inr y)"
  by (cases r) simp_all

lemma collect_map_Inr: "collect (map (\<lambda>x. Inr (f x)) xs) = Inr (map f xs)"
  by (induction xs) simp_all

lemma collect_Inr_D: "collect rs = Inr vs \<Longrightarrow> rs = map Inr vs"
proof (induction rs arbitrary: vs)
  case Nil
  then show ?case by simp
next
  case (Cons r rs)
  then show ?case by (auto split: sum.splits)
qed

lemma collect_map_D:
  assumes "collect (map f xs) = Inr vs"
  shows "length vs = length xs \<and> (\<forall>i<length xs. f (xs ! i) = Inr (vs ! i))"
proof -
  have eq: "map f xs = map Inr vs"
    using assms by (rule collect_Inr_D)
  then have len: "length vs = length xs"
    by (metis length_map)
  moreover have "f (xs ! i) = Inr (vs ! i)" if "i < length xs" for i
  proof -
    have "map f xs ! i = map Inr vs ! i" using eq by simp
    then show ?thesis using that len by simp
  qed
  ultimately show ?thesis by blast
qed


lemma shaped_map [simp]: "shaped r c (map (map f) m) = shaped r c m"
  by (induction m arbitrary: r) (auto simp: shaped_def)

lemma bc_row_same: "length u = length v \<Longrightarrow> bc_row f u v = Inr (map2 f u v)"
  by (simp add: bc_row_def)

lemma bc_mat_same:
  assumes "shaped r c m" and "shaped r c n"
  shows "bc_mat f m n = Inr (map2 (map2 f) m n)"
proof -
  have len: "length m = length n"
    using assms by (simp add: shaped_def)
  have "collect (map2 (bc_row f) m n) = Inr (map2 (map2 f) m n)"
    using len assms
  proof (induction m n arbitrary: r rule: list_induct2)
    case Nil
    then show ?case by simp
  next
    case (Cons u m v n)
    then have "shaped (length m) c m" "shaped (length m) c n" "length u = length v"
      by (auto simp: shaped_def)
    with Cons.IH show ?case by (simp add: bc_row_same)
  qed
  with len show ?thesis by (simp add: bc_mat_def)
qed

lemma shaped_map2:
  assumes "shaped r c m" and "shaped r c n"
  shows "shaped r c (map2 (map2 f) m n)"
proof -
  have "length m = length n" using assms by (simp add: shaped_def)
  then show ?thesis using assms
  proof (induction m n arbitrary: r rule: list_induct2)
    case Nil then show ?case by (simp add: shaped_def)
  next
    case (Cons u m v n)
    then show ?case by (auto simp: shaped_def)
  qed
qed

lemma bop_T2_same:
  "shaped r c m \<Longrightarrow> shaped r c n \<Longrightarrow> bop f (T2 m) (T2 n) = Inr (T2 (map2 (map2 f) m n))"
  by (simp add: bc_mat_same as_T2_def)

lemma mgrid_axis_unit: "mgrid_axis start (start + real n - 1) n = map (\<lambda>i. start + real i) [0..<n]"
proof (cases "n = 1")
  case True
  then show ?thesis by (simp add: mgrid_axis_def)
next
  case False
  then have "real n - 1 \<noteq> 0" by simp
  then show ?thesis by (simp add: mgrid_axis_def Let_def add.commute)
qed

lemma init_grid_eq:
  "init_grid (rows, cols) r c =
     (T2 (map (\<lambda>i. replicate cols (r + real i)) [0..<rows]),
      T2 (replicate rows (map (\<lambda>k. c + real k) [0..<cols])))"
  by (simp add: init_grid_def Let_def mgrid_axis_unit)

lemma shaped_grid_y: "shaped rows cols (map (\<lambda>i. replicate cols (f i)) [0..<rows])"
  by (simp add: shaped_def list_all_iff)

lemma shaped_grid_x: "shaped rows cols (replicate rows (map g [0..<cols]))"
  by (simp add: shaped_def list_all_iff)

section \<open>The shared rows of the bounds table, and the calibrated coefficients\<close>

lemma Zernike_build_D:
  assumes "Zernike_build b z zp cutoff = Inr m"
  shows "\<exists>stars. collect (map (star_entry b z (map (\<lambda>v. if \<bar>v\<bar> > cutoff then 1 else 0) zp))
                      [0..<length (xc b)]) = Inr stars
           \<and> m = Zernike b \<lparr> z_basis = z, zpars = zp,
                             mode_mask = map (\<lambda>v. if \<bar>v\<bar> > cutoff then 1 else 0) zp,
                             cache = map snd stars, coords = map fst stars \<rparr>"
  using assms by (auto simp: Zernike_build_def Let_def andthen_eq_Inr)

lemma Zernike_init_D:
  assumes "Zernike_init L shp c r xs ys b l p n = Inr m"
  shows "Zernike_build (Model_init shp c r xs ys b l p) (Zern L n) zpars_literal 0 = Inr m"
  using assms by (auto simp: Zernike_init_def Let_def andthen_eq_Inr)

lemma built_from_attrs:
  assumes "built_from L shp c r xs ys b l p m"
  shows "\<exists>B. attrs m = Inr B \<and> grid_y B = fst (init_grid shp r c) \<and> grid_x B = snd (init_grid shp r c)
            \<and> xc B = xs \<and> yc B = ys \<and> shape B = shp \<and> bkg0 B = b
            \<and> take (length xs + 3) (bounds B) =
                replicate (length xs) (Fin 0, PInf)
                @ [(Fin (- 2), Fin 2), (Fin (- 2), Fin 2), (Fin 0, PInf)]"
proof -
  let ?B = "Model_init shp c r xs ys b l p"
  consider "m = Plain ?B" | "m = Gaussian_init shp c r xs ys b l p"
    | "m = Moffat_init shp c r xs ys b l p" | "m = Airy_init shp c r xs ys b l p"
    | n where "Zernike_init L shp c r xs ys b l p n = Inr m"
    using assms unfolding built_from_def by blast
  then show ?thesis
  proof cases
    case 1
    then show ?thesis by (simp add: Model_init_def)
  next
    case 2
    then show ?thesis by (simp add: Gaussian_init_def Model_init_def Let_def)
  next
    case 3
    then show ?thesis by (simp add: Moffat_init_def Model_init_def Let_def)
  next
    case 4
    then show ?thesis by (simp add: Airy_init_def Model_init_def)
  next
    case 5
    from Zernike_build_D [OF Zernike_init_D [OF 5]]
    obtain za where "m = Zernike ?B za" by blast
    then show ?thesis by (simp add: Model_init_def)
  qed
qed

text \<open>
  On every model built by a constructor that runs \<^verbatim>\<open>Model.__init__\<close>, the three rows of
  the bounds table that follow the rows of the stars' fluxes are \<open>[-2, 2]\<close>, \<open>[-2, 2]\<close>
  and \<open>[0, +\<infinity>)\<close>, and the flux rows before them are all \<open>[0, +\<infinity>)\<close>.
\<close>

lemma shared_rows_built_from:
  assumes "built_from L shp c r xs ys b l p m"
  shows "shared_rows m = Inr [(Fin (- 2), Fin 2), (Fin (- 2), Fin 2), (Fin 0, PInf)]
         \<and> andthen (get_bounds m) (\<lambda>bs. Inr (take (length xs) bs)) =
           Inr (replicate (length xs) (Fin 0, PInf))"
proof -
  obtain B where B: "attrs m = Inr B" "xc B = xs"
    and rows: "take (length xs + 3) (bounds B) =
      replicate (length xs) (Fin 0, PInf) @ [(Fin (- 2), Fin 2), (Fin (- 2), Fin 2), (Fin 0, PInf)]"
    using built_from_attrs [OF assms] by blast
  have "take 3 (drop (length xs) (bounds B)) = drop (length xs) (take (length xs + 3) (bounds B))"
    by (simp add: drop_take)
  also have "\<dots> = [(Fin (- 2), Fin 2), (Fin (- 2), Fin 2), (Fin 0, PInf)]"
    by (simp add: rows)
  finally have a: "take 3 (drop (length xs) (bounds B)) =
      [(Fin (- 2), Fin 2), (Fin (- 2), Fin 2), (Fin 0, PInf)]" .
  have "take (length xs) (bounds B) = take (length xs) (take (length xs + 3) (bounds B))"
    by simp
  also have "\<dots> = replicate (length xs) (Fin 0, PInf)"
    by (simp add: rows)
  finally have b: "take (length xs) (bounds B) = replicate (length xs) (Fin 0, PInf)" .
  show ?thesis
    using B a b by (simp add: shared_rows_def get_bounds_def)
qed

text \<open>
  Claim C10 on the code. A \<^verbatim>\<open>PRFWrap\<close> around a Gaussian is a constructed model, and
  reading its bounds table raises an AttributeError: \<^verbatim>\<open>PRFWrap.__init__\<close> does not run
  \<^verbatim>\<open>Model.__init__\<close>, which every other class runs and which builds the table. The
  wrapper has no rows \<open>[-2, 2]\<close>, \<open>[-2, 2]\<close>, \<open>[0, +\<infinity>)\<close> where the claim has them for
  every constructed model (on the other classes they are there,
  \<open>shared_rows_built_from\<close>).
\<close>

theorem PRFWrap_has_no_bounds:
  "PRFWrap_init ext_example (Some ''Gaussian'') (3, 3) 0 0 [1] [1] 2 ''chi2'' (T2 [[1]]) =
     Inr (PRFWrap (Gaussian_init (3, 3) 0 0 [1] [1] 2 ''chi2'' (T2 [[1]])))
   \<and> get_bounds (PRFWrap (Gaussian_init (3, 3) 0 0 [1] [1] 2 ''chi2'' (T2 [[1]]))) = Inl AttributeError
   \<and> shared_rows (PRFWrap (Gaussian_init (3, 3) 0 0 [1] [1] 2 ''chi2'' (T2 [[1]]))) = Inl AttributeError"
  by (simp add: PRFWrap_init_def class_named_def get_bounds_def shared_rows_def)

text \<open>
  Claim C7. Whenever \<^verbatim>\<open>Zernike.__init__\<close> returns, \<^verbatim>\<open>self.zpars\<close> is the 15-element
  literal, whatever the solver returned and whatever the reference image was: two
  models built with different libraries, solver results and arguments have the same
  \<^verbatim>\<open>zpars\<close>.
\<close>

theorem zpars_is_the_literal:
  assumes "Zernike_init L shp c r xs ys b l p n = Inr m"
    and "Zernike_init L' shp' c' r' xs' ys' b' l' p' n' = Inr m'"
  shows "get_zpars m = Inr zpars_literal \<and> get_zpars m' = get_zpars m"
proof -
  have "get_zpars k = Inr zpars_literal"
    if "Zernike_init K s cc rr xx yy bb ll pp nn = Inr k" for K s cc rr xx yy bb ll pp nn k
  proof -
    from Zernike_build_D [OF Zernike_init_D [OF that]]
    obtain b za where "k = Zernike b za" "zpars za = zpars_literal" by force
    then show ?thesis by simp
  qed
  from this [OF assms(1)] this [OF assms(2)] show ?thesis by simp
qed

lemma collect_map_succeeds:
  assumes "\<And>x. x \<in> set xs \<Longrightarrow> \<exists>v. f x = Inr v"
  shows "\<exists>vs. collect (map f xs) = Inr vs"
  using assms
proof (induction xs)
  case Nil
  then show ?case by simp
next
  case (Cons x xs)
  then obtain v vs where "f x = Inr v" "collect (map f xs) = Inr vs"
    by (metis list.set_intros(1,2))
  then show ?case by simp
qed

lemma bop_T0_right [simp]: "bop f (T2 m) (T0 a) = Inr (T2 (map (map (\<lambda>x. f x a)) m))"
  by simp

lemma get_polar_coords_shaped:
  assumes "grid_x b = T2 gx" and "grid_y b = T2 gy" and "shaped r c gx" and "shaped r c gy"
  shows "get_polar_coords b xo yo =
           Inr (T2 (map (map sqrt)
                     (map2 (map2 (+)) (map (map (\<lambda>v. v ^ 2)) (map (map (\<lambda>v. v - xo)) gx))
                                      (map (map (\<lambda>v. v ^ 2)) (map (map (\<lambda>v. v - yo)) gy)))),
                T2 (map2 (map2 atan2) (map (map (\<lambda>v. v - yo)) gy) (map (map (\<lambda>v. v - xo)) gx)))"
proof -
  let ?dx = "map (map (\<lambda>v. v - xo)) gx" and ?dy = "map (map (\<lambda>v. v - yo)) gy"
  have sx: "shaped r c (map (map (\<lambda>v. v ^ 2)) ?dx)" and sy: "shaped r c (map (map (\<lambda>v. v ^ 2)) ?dy)"
    using assms by simp_all
  have s1: "shaped r c ?dx" and s2: "shaped r c ?dy"
    using assms by simp_all
  show ?thesis
    using bop_T2_same [OF sx sy, of "(+)"] bop_T2_same [OF s2 s1, of atan2]
    by (simp add: get_polar_coords_def assms(1,2) lift2_def lift1_def)
qed

lemma cache_entry_succeeds:
  assumes "k < length msk" and "k < length (mtab z)"
  shows "\<exists>t. cache_entry z msk shp theta k = Inr t"
  using assms by (simp add: cache_entry_def angular_def Let_def)

lemma star_entry_succeeds:
  assumes "grid_x b = T2 gx" and "grid_y b = T2 gy" and "shaped r c gx" and "shaped r c gy"
    and "j < length (xc b)" and "j < length (yc b)"
    and "nk z \<le> length msk" and "nk z \<le> length (mtab z)"
  shows "\<exists>v. star_entry b z msk j = Inr v"
proof -
  obtain rt where rt: "get_polar_coords b (xc b ! j) (yc b ! j) = Inr rt"
    using get_polar_coords_shaped [OF assms(1-4)] by blast
  have "\<exists>cs. collect (map (cache_entry z msk (shape b) (snd rt)) [0..<nk z]) = Inr cs"
  proof (rule collect_map_succeeds)
    fix k assume "k \<in> set [0..<nk z]"
    then have "k < length msk" "k < length (mtab z)" using assms(7,8) by auto
    then show "\<exists>t. cache_entry z msk (shape b) (snd rt) k = Inr t"
      by (rule cache_entry_succeeds)
  qed
  then show ?thesis
    using rt assms(5,6) by (auto simp: star_entry_def index_def)
qed

lemma Zernike_build_succeeds:
  assumes "grid_x b = T2 gx" and "grid_y b = T2 gy" and "shaped r c gx" and "shaped r c gy"
    and "length (xc b) \<le> length (yc b)"
    and "nk z \<le> length zp" and "nk z \<le> length (mtab z)"
  shows "\<exists>m. Zernike_build b z zp cutoff = Inr m"
proof -
  let ?msk = "map (\<lambda>v. if \<bar>v\<bar> > cutoff then 1 else 0) zp :: int list"
  have "\<exists>stars. collect (map (star_entry b z ?msk) [0..<length (xc b)]) = Inr stars"
  proof (rule collect_map_succeeds)
    fix j assume "j \<in> set [0..<length (xc b)]"
    then have j: "j < length (xc b)" "j < length (yc b)" using assms(5) by auto
    have "nk z \<le> length ?msk" using assms(6) by simp
    from star_entry_succeeds [OF assms(1-4) j this assms(7)]
    show "\<exists>v. star_entry b z ?msk j = Inr v" .
  qed
  then show ?thesis by (auto simp: Zernike_build_def Let_def)
qed

lemma Zernike_init_succeeds:
  assumes "\<And>f p0. \<exists>res. minimize L f p0 = Inr res"
    and "length xs \<le> length ys"
    and "nk (Zern L n) \<le> 15" and "nk (Zern L n) \<le> length (mtab (Zern L n))"
  shows "\<exists>m. Zernike_init L (rows, cols) c r xs ys b l p n = Inr m"
proof -
  let ?B = "Model_init (rows, cols) c r xs ys b l p"
  have g: "grid_x ?B = T2 (replicate rows (map (\<lambda>k. c + real k) [0..<cols]))"
    "grid_y ?B = T2 (map (\<lambda>i. replicate cols (r + real i)) [0..<rows])"
    by (simp_all add: Model_init_def init_grid_eq)
  have "length (xc ?B) \<le> length (yc ?B)" using assms(2) by (simp add: Model_init_def)
  moreover have "nk (Zern L n) \<le> length zpars_literal" using assms(3) by (simp add: zpars_literal_def)
  ultimately obtain m where "Zernike_build ?B (Zern L n) zpars_literal 0 = Inr m"
    using Zernike_build_succeeds [OF g shaped_grid_x shaped_grid_y _ _ assms(4)] by blast
  moreover obtain res where "minimize L (calibration_objective (prf_image ?B) (Zern L n)
      (meshgrid (linspace (- 1) 1 117) (linspace (- 1) 1 117)))
      (T1 ([1, 0, 0, 1 / 1000, 0] @ replicate (nk (Zern L n)) 0)) = Inr res"
    using assms(1) by blast
  ultimately show ?thesis by (auto simp: Zernike_init_def Let_def)
qed

lemma Zernike_init_example:
  "\<exists>m. Zernike_init ext_example (rows, cols) c r [x0] [y0] b l p n = Inr m"
  by (rule Zernike_init_succeeds) (simp_all add: ext_example_def)

theorem zpars_is_the_literal_witness:
  "\<exists>m m'. Zernike_init ext_example (3, 3) 0 0 [1] [1] 2 ''chi2'' (T2 [[1]]) 4 = Inr m
     \<and> Zernike_init (ext_example\<lparr>minimize := \<lambda>f p0. Inr (map (\<lambda>v. v + 1) (entries p0))\<rparr>)
         (2, 2) 5 7 [6] [8] 0 ''chi2'' (T2 [[2]]) 4 = Inr m'
     \<and> get_zpars m = Inr zpars_literal \<and> get_zpars m' = get_zpars m"
proof -
  obtain m where m: "Zernike_init ext_example (3, 3) 0 0 [1] [1] 2 ''chi2'' (T2 [[1]]) 4 = Inr m"
    using Zernike_init_example by blast
  have "\<exists>m'. Zernike_init (ext_example\<lparr>minimize := \<lambda>f p0. Inr (map (\<lambda>v. v + 1) (entries p0))\<rparr>)
         (2, 2) 5 7 [6] [8] 0 ''chi2'' (T2 [[2]]) 4 = Inr m'"
    by (rule Zernike_init_succeeds) (simp_all add: ext_example_def)
  then obtain m' where m': "Zernike_init (ext_example\<lparr>minimize := \<lambda>f p0. Inr (map (\<lambda>v. v + 1) (entries p0))\<rparr>)
         (2, 2) 5 7 [6] [8] 0 ''chi2'' (T2 [[2]]) 4 = Inr m'" by blast
  from zpars_is_the_literal [OF m m'] m m' show ?thesis by blast
qed

section \<open>The coordinate grid and the offsets\<close>

lemma offsets_of_attrs:
  assumes "attrs m = Inr B" and "grid_x B = T2 gx" and "grid_y B = T2 gy"
    and "j < length (xc B)" and "j < length (yc B)"
  shows "offsets m xshift yshift j =
           Inr (T2 (map (map (\<lambda>v. v - (xc B ! j + xshift))) gx),
                T2 (map (map (\<lambda>v. v - (yc B ! j + yshift))) gy))"
  using assms by (simp add: offsets_def index_def lift2_def)

text \<open>
  Claim C8. For every cutout shape \<open>(rows, cols)\<close> and offset \<open>(row_ref, col_ref)\<close>, a
  constructor that runs \<^verbatim>\<open>Model.__init__\<close> leaves two grids \<^verbatim>\<open>y\<close>, \<^verbatim>\<open>x\<close> of exactly the
  cutout shape with \<open>y[i,k] = row_ref + i\<close> and \<open>x[i,k] = col_ref + k\<close>; for a star j
  that has both coordinates, \<^verbatim>\<open>evaluate\<close> computes \<open>dx = x - (xc[j] + xshift)\<close> and
  \<open>dy = y - (yc[j] + yshift)\<close> and hands them to the density of the model's class.
\<close>

theorem grid_and_offsets:
  assumes "built_from L (rows, cols) c r xs ys b l p m"
    and "j < length xs" and "j < length ys"
  shows "andthen (attrs m) (\<lambda>B. Inr (grid_y B, grid_x B)) =
           Inr (T2 (map (\<lambda>i. replicate cols (r + real i)) [0..<rows]),
                T2 (replicate rows (map (\<lambda>k. c + real k) [0..<cols])))
       \<and> shaped rows cols (map (\<lambda>i. replicate cols (r + real i)) [0..<rows])
       \<and> shaped rows cols (replicate rows (map (\<lambda>k. c + real k) [0..<cols]))
       \<and> (\<forall>i<rows. \<forall>k<cols.
            map (\<lambda>i. replicate cols (r + real i)) [0..<rows] ! i ! k = r + real i
          \<and> replicate rows (map (\<lambda>k. c + real k) [0..<cols]) ! i ! k = c + real k)
       \<and> offsets m xshift yshift j =
           Inr (T2 (replicate rows (map (\<lambda>k. c + real k - (xs ! j + xshift)) [0..<cols])),
                T2 (map (\<lambda>i. replicate cols (r + real i - (ys ! j + yshift))) [0..<rows]))
       \<and> evaluate L' m flux xshift yshift params j nrm =
           andthen (psf L' m
                      (T2 (replicate rows (map (\<lambda>k. c + real k - (xs ! j + xshift)) [0..<cols])))
                      (T2 (map (\<lambda>i. replicate cols (r + real i - (ys ! j + yshift))) [0..<rows]))
                      params j)
             (\<lambda>d. div_r (mul_r (num flux) (Inr d)) (Inr (if nrm then tsum d else T0 1)))"
proof -
  obtain B where B: "attrs m = Inr B" "xc B = xs" "yc B = ys"
    and gy: "grid_y B = T2 (map (\<lambda>i. replicate cols (r + real i)) [0..<rows])"
    and gx: "grid_x B = T2 (replicate rows (map (\<lambda>k. c + real k) [0..<cols]))"
    using built_from_attrs [OF assms(1)] by (auto simp: init_grid_eq)
  have off: "offsets m xshift yshift j =
           Inr (T2 (replicate rows (map (\<lambda>k. c + real k - (xs ! j + xshift)) [0..<cols])),
                T2 (map (\<lambda>i. replicate cols (r + real i - (ys ! j + yshift))) [0..<rows]))"
    using offsets_of_attrs [OF B(1) gx gy, of j xshift yshift] assms(2,3) B(2,3)
    by (simp add: comp_def)
  show ?thesis
    using B(1) gy gx off
    by (simp add: shaped_grid_x shaped_grid_y evaluate_def Let_def)
qed

theorem grid_and_offsets_witness:
  "built_from ext_example (2, 3) 10 20 [11] [21] 2 ''chi2'' (T2 [[1]])
     (Gaussian_init (2, 3) 10 20 [11] [21] 2 ''chi2'' (T2 [[1]]))
   \<and> andthen (attrs (Gaussian_init (2, 3) 10 20 [11] [21] 2 ''chi2'' (T2 [[1]])))
        (\<lambda>B. Inr (grid_y B, grid_x B)) =
      Inr (T2 [[20, 20, 20], [21, 21, 21]], T2 [[10, 11, 12], [10, 11, 12]])
   \<and> offsets (Gaussian_init (2, 3) 10 20 [11] [21] 2 ''chi2'' (T2 [[1]])) (1 / 2) 0 0 =
      Inr (T2 [[- 3 / 2, - 1 / 2, 1 / 2], [- 3 / 2, - 1 / 2, 1 / 2]],
           T2 [[- 1, - 1, - 1], [0, 0, 0]])"
proof -
  have h: "built_from ext_example (2, 3) 10 20 [11] [21] 2 ''chi2'' (T2 [[1]])
     (Gaussian_init (2, 3) 10 20 [11] [21] 2 ''chi2'' (T2 [[1]]))"
    by (simp add: built_from_def)
  have j: "(0::nat) < length [11::real]" "(0::nat) < length [21::real]" by simp_all
  from grid_and_offsets [OF h j, of "1 / 2" 0 ext_example 1 "T1 [1, 0, 1]" True]
  have "andthen (attrs (Gaussian_init (2, 3) 10 20 [11] [21] 2 ''chi2'' (T2 [[1]])))
        (\<lambda>B. Inr (grid_y B, grid_x B)) =
      Inr (T2 (map (\<lambda>i. replicate 3 (20 + real i)) [0..<2]),
           T2 (replicate 2 (map (\<lambda>k. 10 + real k) [0..<3])))"
    and "offsets (Gaussian_init (2, 3) 10 20 [11] [21] 2 ''chi2'' (T2 [[1]])) (1 / 2) 0 0 =
      Inr (T2 (replicate 2 (map (\<lambda>k. 10 + real k - ([11] ! 0 + 1 / 2)) [0..<3])),
           T2 (map (\<lambda>i. replicate 3 (20 + real i - ([21] ! 0 + 0))) [0..<2]))"
    by blast+
  then show ?thesis
    using h by (simp add: numeral_2_eq_2 numeral_3_eq_3 upt_rec)
qed

section \<open>The backward pass of the Bessel primitive\<close>

lemma map2_fuse:
  assumes "length g = length x"
  shows "map2 (*) (map ((*) k) g) (map2 (+) (map f x) (map h x)) =
         map2 (\<lambda>gi xi. k * gi * (f xi + h xi)) g (x :: real list)"
  using assms by (induction g x rule: list_induct2) simp_all

lemma map2_fuse_rows:
  assumes "shaped r c g" and "shaped r c x"
  shows "map2 (map2 (*)) (map (map ((*) k)) g) (map2 (map2 (+)) (map (map f) x) (map (map h) x)) =
         map2 (map2 (\<lambda>gi xi. k * gi * (f xi + h xi))) g x"
proof -
  have "length g = length x" using assms by (simp add: shaped_def)
  then show ?thesis using assms
  proof (induction g x arbitrary: r rule: list_induct2)
    case Nil
    then show ?case by simp
  next
    case (Cons u g v x)
    then have "length u = length v" "shaped (length g) c g" "shaped (length g) c x"
      by (auto simp: shaped_def)
    with Cons.IH show ?case by (simp add: map2_fuse)
  qed
qed

lemma forward_T1: "forward L (T1 x) (Number nu) =
    Inr (\<lparr> nu_attr = Number nu, saved_tensors = [T1 x] \<rparr>, T1 (map (iv L nu) x))"
  by (simp add: forward_def)

lemma forward_T2: "forward L (T2 x) (Number nu) =
    Inr (\<lparr> nu_attr = Number nu, saved_tensors = [T2 x] \<rparr>, T2 (map (map (iv L nu)) x))"
  by (simp add: forward_def)

lemma forward_T0: "forward L (T0 a) (Number nu) = Inl TypeError"
  by (simp add: forward_def)

text \<open>
  Claim C3. After a forward pass on an input x at a fixed order \<open>nu\<close>, the backward
  pass on an upstream gradient g of the shape of x returns, as the gradient with
  respect to the input, \<open>0.5 * g * (I (nu - 1) x + I (nu + 1) x)\<close> elementwise, where
  both terms come from applying the primitive again to the saved input, and \<^verbatim>\<open>None\<close>
  as the gradient with respect to the order. The input is a vector or a matrix: on a
  scalar input and a scalar order the forward pass itself raises.
\<close>

theorem bessel_backward:
  assumes "forward L x (Number nu) = Inr (cx, y)"
  shows "(\<forall>a. x \<noteq> T0 a)
       \<and> (x = T1 xv \<and> length gv = length xv \<longrightarrow>
            backward L cx (T1 gv) =
              Inr (T1 (map2 (\<lambda>g v. 0.5 * g * (iv L (nu - 1) v + iv L (nu + 1) v)) gv xv), None))
       \<and> (x = T2 xm \<and> shaped r c xm \<and> shaped r c gm \<longrightarrow>
            backward L cx (T2 gm) =
              Inr (T2 (map2 (map2 (\<lambda>g v. 0.5 * g * (iv L (nu - 1) v + iv L (nu + 1) v))) gm xm), None))"
proof (intro conjI allI impI)
  fix a show "x \<noteq> T0 a"
    using assms by (auto simp: forward_T0)
next
  assume h: "x = T1 xv \<and> length gv = length xv"
  then have cx: "cx = \<lparr> nu_attr = Number nu, saved_tensors = [T1 xv] \<rparr>"
    using assms by (simp add: forward_T1)
  show "backward L cx (T1 gv) =
      Inr (T1 (map2 (\<lambda>g v. 0.5 * g * (iv L (nu - 1) v + iv L (nu + 1) v)) gv xv), None)"
    using h map2_fuse [of gv xv "0.5" "iv L (nu - 1)" "iv L (nu + 1)"]
    by (simp add: cx backward_def modified_bessel_def forward_T1 lift2_def bc_row_same as_T1_def)
next
  assume h: "x = T2 xm \<and> shaped r c xm \<and> shaped r c gm"
  then have cx: "cx = \<lparr> nu_attr = Number nu, saved_tensors = [T2 xm] \<rparr>"
    using assms by (simp add: forward_T2)
  have s1: "shaped r c (map (map ((*) (1 / 2))) gm)"
    using h by simp
  have s2: "shaped r c (map2 (map2 (+)) (map (map (iv L (nu - 1))) xm) (map (map (iv L (nu + 1))) xm))"
    using h by (intro shaped_map2) simp_all
  have s3: "shaped r c (map (map (iv L (nu - 1))) xm)" "shaped r c (map (map (iv L (nu + 1))) xm)"
    using h by simp_all
  show "backward L cx (T2 gm) =
      Inr (T2 (map2 (map2 (\<lambda>g v. 0.5 * g * (iv L (nu - 1) v + iv L (nu + 1) v))) gm xm), None)"
    using h map2_fuse_rows [of r c gm xm "0.5" "iv L (nu - 1)" "iv L (nu + 1)"]
      bc_mat_same [OF s1 s2, of "(*)"] bc_mat_same [OF s3, of "(+)"]
    by (simp add: cx backward_def modified_bessel_def forward_T2 lift2_def as_T2_def)
qed

theorem bessel_backward_witness:
  "forward (ext_example\<lparr>iv := \<lambda>nu v. nu * v\<rparr>) (T1 [2, 3]) (Number 1) =
     Inr (\<lparr> nu_attr = Number 1, saved_tensors = [T1 [2, 3]] \<rparr>, T1 [2, 3])
   \<and> backward (ext_example\<lparr>iv := \<lambda>nu v. nu * v\<rparr>)
        \<lparr> nu_attr = Number 1, saved_tensors = [T1 [2, 3]] \<rparr> (T1 [10, 20]) =
     Inr (T1 [20, 60], None)"
proof -
  have f: "forward (ext_example\<lparr>iv := \<lambda>nu v. nu * v\<rparr>) (T1 [2, 3]) (Number 1) =
     Inr (\<lparr> nu_attr = Number 1, saved_tensors = [T1 [2, 3]] \<rparr>, T1 [2, 3])"
    by (simp add: forward_def ext_example_def)
  from bessel_backward [OF f, of "[2, 3]" "[10, 20]"] f
  show ?thesis by (simp add: ext_example_def)
qed

section \<open>The mean image and the background\<close>

lemma imgI: "shaped r c m \<Longrightarrow> img r c (Inr (T2 m))"
  by (simp add: img_def)

lemma imgE: "img r c res \<Longrightarrow> (\<And>m. res = Inr (T2 m) \<Longrightarrow> shaped r c m \<Longrightarrow> P) \<Longrightarrow> P"
  by (auto simp: img_def)

lemma img_lift1: "img r c R \<Longrightarrow> img r c (lift1 f R)"
  by (auto simp: img_def lift1_def)

lemma img_lift2:
  assumes "img r c R" and "img r c S"
  shows "img r c (lift2 f R S)"
proof -
  obtain m n where R: "R = Inr (T2 m)" "shaped r c m" and S: "S = Inr (T2 n)" "shaped r c n"
    using assms by (auto simp: img_def)
  show ?thesis
    using bop_T2_same [OF R(2) S(2), of f] shaped_map2 [OF R(2) S(2), of f]
    by (simp add: R(1) S(1) lift2_def img_def)
qed

lemma img_scalar_left: "img r c S \<Longrightarrow> img r c (lift2 f (Inr (T0 a)) S)"
  by (auto simp: img_def lift2_def)

lemma img_scalar_right: "img r c R \<Longrightarrow> img r c (lift2 f R (Inr (T0 a)))"
  by (auto simp: img_def lift2_def)

lemma lift2_scalars [simp]: "lift2 f (Inr (T0 a)) (Inr (T0 b)) = Inr (T0 (f a b))"
  by (simp add: lift2_def)




section \<open>Normalisation, and the Moffat density\<close>

lemma offsets_built_from:
  assumes "built_from L (rows, cols) c r xs ys b l p m"
    and "j < length xs" and "j < length ys"
  shows "offsets m xshift yshift j =
           Inr (T2 (replicate rows (map (\<lambda>k. c + real k - (xs ! j + xshift)) [0..<cols])),
                T2 (map (\<lambda>i. replicate cols (r + real i - (ys ! j + yshift))) [0..<rows]))"
proof -
  obtain B where B: "attrs m = Inr B" "xc B = xs" "yc B = ys"
    and gy: "grid_y B = T2 (map (\<lambda>i. replicate cols (r + real i)) [0..<rows])"
    and gx: "grid_x B = T2 (replicate rows (map (\<lambda>k. c + real k) [0..<cols]))"
    using built_from_attrs [OF assms(1)] by (auto simp: init_grid_eq)
  show ?thesis
    using offsets_of_attrs [OF B(1) gx gy, of j xshift yshift] assms(2,3) B(2,3)
    by (simp add: comp_def)
qed

lemma Gaussian_psf_img:
  assumes "shaped r c dx" and "shaped r c dy"
  shows "\<exists>Q. Gaussian_psf (T2 dx) (T2 dy) (T1 [a, b, cc]) j = Inr (T2 (map (map exp) Q))
            \<and> shaped r c Q"
proof -
  have X: "img r c (Inr (T2 dx))" and Y: "img r c (Inr (T2 dy))"
    using assms by (simp_all add: imgI)
  have t1: "img r c (mul_r (Inr (T0 a)) (sq_r (Inr (T2 dx))))"
    by (rule img_scalar_left [OF img_lift1 [OF X]])
  have t2: "img r c (mul_r (mul_r (mul_r (num 2) (Inr (T0 b))) (Inr (T2 dx))) (Inr (T2 dy)))"
    unfolding lift2_scalars by (rule img_lift2 [OF img_scalar_left [OF X] Y])
  have t3: "img r c (mul_r (Inr (T0 cc)) (sq_r (Inr (T2 dy))))"
    by (rule img_scalar_left [OF img_lift1 [OF Y]])
  have "img r c (neg_r (add_r (add_r (mul_r (Inr (T0 a)) (sq_r (Inr (T2 dx))))
                    (mul_r (mul_r (mul_r (num 2) (Inr (T0 b))) (Inr (T2 dx))) (Inr (T2 dy))))
                    (mul_r (Inr (T0 cc)) (sq_r (Inr (T2 dy))))))"
    by (rule img_lift1 [OF img_lift2 [OF img_lift2 [OF t1 t2] t3]])
  then obtain Q where Q: "neg_r (add_r (add_r (mul_r (Inr (T0 a)) (sq_r (Inr (T2 dx))))
                    (mul_r (mul_r (mul_r (num 2) (Inr (T0 b))) (Inr (T2 dx))) (Inr (T2 dy))))
                    (mul_r (Inr (T0 cc)) (sq_r (Inr (T2 dy))))) = Inr (T2 Q)" "shaped r c Q"
    by (rule imgE)
  have "Gaussian_psf (T2 dx) (T2 dy) (T1 [a, b, cc]) j = exp_r (Inr (T2 Q))"
    unfolding Gaussian_psf_def by (simp add: Q(1) [symmetric])
  then show ?thesis using Q(2) by (auto simp: lift1_def)
qed

lemma sum_list_scaled: "sum_list (map (\<lambda>v. k * v / s) xs) = k * sum_list xs / (s :: real)"
  by (induction xs) (simp_all add: add_divide_distrib distrib_left)

lemma sum_list_concat_scaled:
  "sum_list (concat (map (map (\<lambda>v. k * v / s)) m)) = k * sum_list (concat m) / (s :: real)"
  by (induction m) (simp_all add: sum_list_scaled add_divide_distrib distrib_left)

lemma sum_list_exp_pos: "xs \<noteq> [] \<Longrightarrow> 0 < sum_list (map exp (xs :: real list))"
proof (induction xs)
  case Nil
  then show ?case by simp
next
  case (Cons x xs)
  show ?case
  proof (cases "xs = []")
    case True
    then show ?thesis by simp
  next
    case False
    with Cons.IH have "0 < sum_list (map exp xs)" by simp
    then show ?thesis by (simp add: add_pos_pos)
  qed
qed

lemma concat_shaped_nonempty:
  assumes "shaped r c m" and "0 < r" and "0 < c"
  shows "concat m \<noteq> []"
proof -
  obtain u rest where "m = u # rest" using assms(1,2) by (cases m) (auto simp: shaped_def)
  moreover from this have "length u = c" using assms(1) by (simp add: shaped_def)
  ultimately show ?thesis using assms(3) by auto
qed

text \<open>The last line of evaluate, on a density that is an image.\<close>

lemma evaluate_finish:
  assumes "offsets m xs ys j = Inr (dx, dy)" and "psf L m dx dy params j = Inr (T2 P)"
  shows "evaluate L m flux xs ys params j nrm =
           Inr (T2 (map (map (\<lambda>v. flux * v / (if nrm then sum_list (concat P) else 1))) P))"
  using assms by (simp add: evaluate_def tsum_def lift2_def comp_def)

lemma Gaussian_init_built: "built_from L shp c r xs ys b l p (Gaussian_init shp c r xs ys b l p)"
  by (simp add: built_from_def)

lemma psf_Gaussian_init [simp]:
  "psf L (Gaussian_init shp c r xs ys b l p) dx dy params j = Gaussian_psf dx dy params j"
  by (simp add: Gaussian_init_def Let_def)

lemma evaluate_Gaussian:
  assumes "j < length xs" and "j < length ys"
  shows "\<exists>Q. shaped rows cols Q
           \<and> evaluate L (Gaussian_init (rows, cols) c r xs ys b l p) flux xshift yshift
               (T1 [a, bb, cc]) j nrm =
             Inr (T2 (map (map (\<lambda>v. flux * v / (if nrm then sum_list (concat (map (map exp) Q)) else 1)))
                        (map (map exp) Q)))"
proof -
  let ?m = "Gaussian_init (rows, cols) c r xs ys b l p"
  let ?dx = "replicate rows (map (\<lambda>k. c + real k - (xs ! j + xshift)) [0..<cols])"
  let ?dy = "map (\<lambda>i. replicate cols (r + real i - (ys ! j + yshift))) [0..<rows]"
  have off: "offsets ?m xshift yshift j = Inr (T2 ?dx, T2 ?dy)"
    using Gaussian_init_built assms by (rule offsets_built_from)
  have sx: "shaped rows cols ?dx" by (rule shaped_grid_x)
  have sy: "shaped rows cols ?dy" by (rule shaped_grid_y)
  obtain Q where Q: "Gaussian_psf (T2 ?dx) (T2 ?dy) (T1 [a, bb, cc]) j = Inr (T2 (map (map exp) Q))"
      "shaped rows cols Q"
    using Gaussian_psf_img [OF sx sy, of a bb cc j] by blast
  have "psf L ?m (T2 ?dx) (T2 ?dy) (T1 [a, bb, cc]) j = Inr (T2 (map (map exp) Q))"
    using Q(1) by simp
  from evaluate_finish [OF off this] Q(2) show ?thesis by blast
qed


lemma Gaussian_unit_flux_normalised:
  assumes "j < length xs" and "j < length ys" and "0 < rows" and "0 < cols"
  shows "\<exists>d. evaluate L (Gaussian_init (rows, cols) c r xs ys b l p) 1 xshift yshift
               (T1 [a, bb, cc]) j True = Inr (T2 d)
           \<and> shaped rows cols d \<and> sum_list (concat d) = 1"
proof -
  obtain Q where Q: "shaped rows cols Q"
    and ev: "evaluate L (Gaussian_init (rows, cols) c r xs ys b l p) 1 xshift yshift
               (T1 [a, bb, cc]) j True =
             Inr (T2 (map (map (\<lambda>v. 1 * v / sum_list (concat (map (map exp) Q))))
                        (map (map exp) Q)))"
    using evaluate_Gaussian [OF assms(1,2), of rows cols L c r b l p 1 xshift yshift a bb cc True]
    by auto
  have "concat Q \<noteq> []"
    using Q assms(3,4) by (rule concat_shaped_nonempty)
  then have "0 < sum_list (map exp (concat Q))"
    by (rule sum_list_exp_pos)
  then have pos: "sum_list (concat (map (map exp) Q)) \<noteq> 0"
    by (simp add: map_concat)
  have "sum_list (concat (map (map (\<lambda>v. 1 * v / sum_list (concat (map (map exp) Q))))
                        (map (map exp) Q))) = 1"
    using pos by (simp only: sum_list_concat_scaled) simp
  then show ?thesis using ev Q by auto
qed

lemma Moffat_init_built: "built_from L shp c r xs ys b l p (Moffat_init shp c r xs ys b l p)"
  by (simp add: built_from_def)

lemma psf_Moffat_init [simp]:
  "psf L (Moffat_init shp c r xs ys b l p) dx dy params j = Moffat_psf dx dy params j"
  by (simp add: Moffat_init_def Let_def)

lemma Moffat_evaluate_unpack_fails:
  assumes "rows \<noteq> 4" and "j < length xs" and "j < length ys"
  shows "evaluate L (Moffat_init (rows, cols) c r xs ys b l p) flux xshift yshift params j nrm =
           Inl ValueError"
proof -
  have off: "offsets (Moffat_init (rows, cols) c r xs ys b l p) xshift yshift j =
     Inr (T2 (replicate rows (map (\<lambda>k. c + real k - (xs ! j + xshift)) [0..<cols])),
          T2 (map (\<lambda>i. replicate cols (r + real i - (ys ! j + yshift))) [0..<rows]))"
    using Moffat_init_built assms(2,3) by (rule offsets_built_from)
  show ?thesis
    using assms(1) by (simp add: evaluate_def off Moffat_psf_def)
qed

text \<open>
  Claim C2 on the code. \<^verbatim>\<open>Model.evaluate\<close> passes \<^verbatim>\<open>(dx, dy, params, j)\<close> by position and
  \<^verbatim>\<open>Moffat.psf\<close> takes \<^verbatim>\<open>(params, dx, dy, j)\<close>, so the method unpacks the grid of
  x-offsets into \<^verbatim>\<open>a, b, c, beta\<close>: on an 11 by 11 cutout the call raises a ValueError
  instead of returning the density.
\<close>

theorem Moffat_density_through_evaluate_raises:
  "evaluate ext_example (Moffat_init (11, 11) 0 0 [5] [5] 2 ''chi2'' (T2 [[1]])) 100 0 0
     (T1 [1, 0, 1, 1]) 0 False = Inl ValueError"
  by (rule Moffat_evaluate_unpack_fails) simp_all

text \<open>
  Claim C5 on the code. For the Moffat model the evaluation with flux 1 and
  \<^verbatim>\<open>norm=True\<close> raises a ValueError on a 3 by 3 cutout, for the default parameters: no
  density is returned whose sum could be 1. For the Gaussian model the claim holds
  (\<open>Gaussian_unit_flux_normalised\<close>).
\<close>

theorem Moffat_unit_flux_raises:
  "evaluate ext_example (Moffat_init (3, 3) 0 0 [1] [1] 0 ''chi2'' (T2 [[1]])) 1 0 0
     (T1 [1, 0, 1, 1]) 0 True = Inl ValueError"
  by (rule Moffat_evaluate_unpack_fails) simp_all

text \<open>
  Called with its own argument order, on the offsets of one pixel, the Moffat density
  is the documented one.
\<close>

lemma Moffat_psf_direct:
  "Moffat_psf (T1 [a, b, cc, beta]) (T0 dx) (T0 dy) j =
     Inr (T0 (1 / fpow (1 + a * dx\<^sup>2 + 2 * b * dx * dy + cc * dy\<^sup>2) (beta\<^sup>2)))"
  by (simp add: Moffat_psf_def lift2_def lift1_def)

lemma Moffat_psf_direct_positive:
  assumes "0 < 1 + a * dx\<^sup>2 + 2 * b * dx * dy + cc * dy\<^sup>2"
  shows "Moffat_psf (T1 [a, b, cc, beta]) (T0 dx) (T0 dy) j =
     Inr (T0 ((1 + a * dx\<^sup>2 + 2 * b * dx * dy + cc * dy\<^sup>2) powr (- (beta\<^sup>2))))"
  using assms by (simp add: Moffat_psf_direct fpow_def powr_minus_divide)

section \<open>The density of the convolution wrapper\<close>

lemma PRFWrap_psf_never_returns: "psf L (PRFWrap sub) dx dy params j \<noteq> Inr d"
  by (cases "psf L sub dx dy params j") simp_all

lemma PRFWrap_forwards_defaults: "get_default_optpars (PRFWrap sub) = get_default_optpars sub"
  by simp

lemma PRFWrap_unresolved_name:
  "class_named s = None \<Longrightarrow> py_eval L s = Inl e \<Longrightarrow>
     PRFWrap_init L (Some s) shp c r xs ys b l p = Inl e"
  by (simp add: PRFWrap_init_def)

text \<open>
  Claim C9 on the code. A \<^verbatim>\<open>PRFWrap\<close> around a Gaussian is constructed, and the
  Gaussian's own density returns; the wrapper's density then reads \<^verbatim>\<open>self.prf\<close>, which
  no statement assigns on a \<^verbatim>\<open>PRFWrap\<close>, and raises an AttributeError where the claim
  has the convolution with the reference image. The default parameters are forwarded
  (\<open>PRFWrap_forwards_defaults\<close>), and a string that \<^verbatim>\<open>eval\<close> cannot resolve ends the
  construction with the error of \<^verbatim>\<open>eval\<close> (\<open>PRFWrap_unresolved_name\<close>).
\<close>

theorem PRFWrap_density_raises:
  "PRFWrap_init ext_example (Some ''Gaussian'') (3, 3) 0 0 [1] [1] 0 ''chi2'' (T2 [[1]]) =
     Inr (PRFWrap (Gaussian_init (3, 3) 0 0 [1] [1] 0 ''chi2'' (T2 [[1]])))
   \<and> psf ext_example (Gaussian_init (3, 3) 0 0 [1] [1] 0 ''chi2'' (T2 [[1]]))
        (T2 [[0]]) (T2 [[0]]) (T1 [1, 0, 1]) 0 = Inr (T2 [[1]])
   \<and> psf ext_example (PRFWrap (Gaussian_init (3, 3) 0 0 [1] [1] 0 ''chi2'' (T2 [[1]])))
        (T2 [[0]]) (T2 [[0]]) (T1 [1, 0, 1]) 0 = Inl AttributeError"
  by (simp add: PRFWrap_init_def class_named_def Gaussian_init_def Let_def Gaussian_psf_def
      lift2_def lift1_def bc_mat_def bc_row_def as_T2_def)

section \<open>Bounds tables and default parameters\<close>

lemma Gaussian_bounds_and_defaults:
  assumes "entries d0 \<noteq> []"
  shows "get_bounds (Gaussian_init shp c r xs ys b l p) =
           Inr (replicate (length xs) (Fin 0, PInf)
                @ [(Fin (- 2), Fin 2), (Fin (- 2), Fin 2), (Fin 0, PInf)]
                @ [(Fin 0, PInf), (Fin (- 0.5), Fin 0.5), (Fin 0, PInf)])"
    and "\<exists>ps. get_default_par (Gaussian_init shp c r xs ys b l p) d0 = Inr ps
            \<and> length ps = length xs + 6"
  using assms
  by (auto simp: get_bounds_def get_default_par_def np_max_def Gaussian_init_def Model_init_def
      Let_def split: list.splits)

lemma Moffat_bounds_and_defaults:
  assumes "entries d0 \<noteq> []"
  shows "get_bounds (Moffat_init shp c r xs ys b l p) =
           Inr (replicate (length xs) (Fin 0, PInf)
                @ [(Fin (- 2), Fin 2), (Fin (- 2), Fin 2), (Fin 0, PInf)]
                @ [(Fin 0, PInf), (Fin (- 0.5), Fin 0.5), (Fin 0, PInf), (Fin 0, PInf)])"
    and "\<exists>ps. get_default_par (Moffat_init shp c r xs ys b l p) d0 = Inr ps
            \<and> length ps = length xs + 7"
  using assms
  by (auto simp: get_bounds_def get_default_par_def np_max_def Moffat_init_def Model_init_def
      Let_def split: list.splits)

lemma Airy_has_no_defaults:
  assumes "entries d0 \<noteq> []"
  shows "get_default_par (Airy_init shp c r xs ys b l p) d0 = Inl AttributeError"
    and "get_bounds (Airy_init shp c r xs ys b l p) =
           Inr (replicate (length xs) (Fin 0, PInf)
                @ [(Fin (- 2), Fin 2), (Fin (- 2), Fin 2), (Fin 0, PInf)])"
  using assms
  by (auto simp: get_bounds_def get_default_par_def np_max_def Airy_init_def Model_init_def
      split: list.splits)

text \<open>
  Claim C1 on the code. Every \<^verbatim>\<open>Zernike\<close> model that construction returns, for N stars,
  has the N + 3 rows of \<^verbatim>\<open>Model.__init__\<close> as its bounds table, and a default parameter
  vector of N + 20 entries: \<^verbatim>\<open>Zernike.__init__\<close> stacks no rows for its 17 optical
  parameters, as \<^verbatim>\<open>Gaussian\<close> and \<^verbatim>\<open>Moffat\<close> do for theirs
  (\<open>Gaussian_bounds_and_defaults\<close>, \<open>Moffat_bounds_and_defaults\<close>).
\<close>

theorem Zernike_bounds_shorter_than_parameters:
  assumes "Zernike_init L shp c r xs ys b l p n = Inr m" and "entries d0 \<noteq> []"
  shows "map_sum id length (get_bounds m) = Inr (length xs + 3)
       \<and> map_sum id length (get_default_par m d0) = Inr (length xs + 20)"
proof -
  from Zernike_build_D [OF Zernike_init_D [OF assms(1)]]
  obtain za where m: "m = Zernike (Model_init shp c r xs ys b l p) za" "zpars za = zpars_literal"
    by force
  show ?thesis
    using assms(2)
    by (auto simp: m get_bounds_def get_default_par_def np_max_def Model_init_def zpars_literal_def
        split: list.splits)
qed

theorem Zernike_bounds_shorter_than_parameters_witness:
  "\<exists>m. Zernike_init ext_example (11, 11) 0 0 [5] [5] 2 ''chi2'' (T2 [[1]]) 4 = Inr m
     \<and> map_sum id length (get_bounds m) = Inr 4
     \<and> map_sum id length (get_default_par m (T2 [[1, 7], [3, 2]])) = Inr 21"
proof -
  obtain m where m: "Zernike_init ext_example (11, 11) 0 0 [5] [5] 2 ''chi2'' (T2 [[1]]) 4 = Inr m"
    using Zernike_init_example by blast
  have d: "entries (T2 [[1, 7], [3, 2]]) \<noteq> []" by simp
  from Zernike_bounds_shorter_than_parameters [OF m d] m show ?thesis by auto
qed

section \<open>The mode mask of the Zernike model\<close>

lemma star_entry_D:
  assumes "star_entry b z msk j = Inr (rt, cs)"
  shows "length cs = nk z
       \<and> (\<forall>k<nk z. cache_entry z msk (shape b) (snd rt) k = Inr (cs ! k))"
proof -
  from assms have "collect (map (cache_entry z msk (shape b) (snd rt)) [0..<nk z]) = Inr cs"
    by (auto simp: star_entry_def andthen_eq_Inr)
  from collect_map_D [OF this] show ?thesis by simp
qed

lemma cache_entry_masked:
  assumes "cache_entry z msk shp theta k = Inr t" and "msk ! k = 0"
  shows "t = zeros shp"
  using assms by (auto simp: cache_entry_def split: if_splits)

lemma Zernike_build_cache:
  assumes "Zernike_build b z zp cutoff = Inr (Zernike b' za)"
  shows "b' = b \<and> length (cache za) = length (xc b)
       \<and> (\<forall>j<length (xc b). length (cache za ! j) = nk z
            \<and> (\<forall>k<nk z. mode_mask za ! k = 0 \<longrightarrow> cache za ! j ! k = zeros (shape b)))"
proof -
  let ?msk = "map (\<lambda>v. if \<bar>v\<bar> > cutoff then 1 else 0) zp :: int list"
  from Zernike_build_D [OF assms]
  obtain stars where st: "collect (map (star_entry b z ?msk) [0..<length (xc b)]) = Inr stars"
    and b': "b' = b" and za: "mode_mask za = ?msk" "cache za = map snd stars"
    by auto
  from collect_map_D [OF st]
  have len: "length stars = length (xc b)"
    and each: "\<And>j. j < length (xc b) \<Longrightarrow> star_entry b z ?msk j = Inr (stars ! j)"
    by simp_all
  have "length (cache za ! j) = nk z
        \<and> (\<forall>k<nk z. mode_mask za ! k = 0 \<longrightarrow> cache za ! j ! k = zeros (shape b))"
    if j: "j < length (xc b)" for j
  proof -
    have "star_entry b z ?msk j = Inr (fst (stars ! j), snd (stars ! j))"
      using each [OF j] by simp
    from star_entry_D [OF this]
    have l: "length (snd (stars ! j)) = nk z"
      and e: "\<And>k. k < nk z \<Longrightarrow>
        cache_entry z ?msk (shape b) (snd (fst (stars ! j))) k = Inr (snd (stars ! j) ! k)"
      by simp_all
    have c: "cache za ! j = snd (stars ! j)"
      using j len by (simp add: za(2))
    show ?thesis
      using l cache_entry_masked [OF e] by (simp add: c za(1))
  qed
  then show ?thesis using b' len by (simp add: za(2))
qed

lemma zern_loop_masked_cong:
  assumes "length zp = length zp'"
    and "\<And>i. i < length zp \<Longrightarrow> i < length (mode_mask za) \<Longrightarrow> mode_mask za ! i \<noteq> 0
           \<Longrightarrow> zp ! i = zp' ! i"
  shows "zern_loop za (T1 zp) j ks acc = zern_loop za (T1 zp') j ks acc"
proof (induction ks arbitrary: acc)
  case Nil
  then show ?case by simp
next
  case (Cons i ks)
  have rest: "zern_loop za (T1 zp) j ks = zern_loop za (T1 zp') j ks"
    by (rule ext) (rule Cons.IH)
  show ?case
  proof (cases "i < length (mode_mask za) \<and> i < length zp")
    case False
    then show ?thesis using assms(1) by auto
  next
    case True
    show ?thesis
    proof (cases "mode_mask za ! i = 0")
      case True
      then show ?thesis using assms(1) by (simp add: rest)
    next
      case False
      with True assms(2) have "zp ! i = zp' ! i" by simp
      then show ?thesis using True assms(1) by (simp add: rest)
    qed
  qed
qed

lemma Zernike_psf_masked_cong:
  assumes "length q = length q'"
    and "\<And>i. i < length q \<Longrightarrow> q ! i \<noteq> q' ! i \<Longrightarrow>
           2 \<le> i \<and> i - 2 < length (mode_mask za) \<and> mode_mask za ! (i - 2) = 0"
  shows "Zernike_psf b za dx dy (T1 q) j = Zernike_psf b za dx dy (T1 q') j"
proof -
  have hd: "take 2 q = take 2 q'"
  proof (rule nth_equalityI)
    show "length (take 2 q) = length (take 2 q')" using assms(1) by simp
  next
    fix i assume "i < length (take 2 q)"
    then have "i < length q" "i < 2" by simp_all
    with assms(2) [of i] show "take 2 q ! i = take 2 q' ! i" by auto
  qed
  have len: "length (drop 2 q) = length (drop 2 q')" using assms(1) by simp
  have tl: "drop 2 q ! i = drop 2 q' ! i"
    if "i < length (drop 2 q)" "i < length (mode_mask za)" "mode_mask za ! i \<noteq> 0" for i
  proof -
    have i: "i + 2 < length q" using that(1) by simp
    have "q ! (i + 2) = q' ! (i + 2)"
      using assms(2) [OF i] that(2,3) by auto
    then show ?thesis using i assms(1) by (simp add: add.commute)
  qed
  have loop: "zern_loop za (T1 (drop 2 q)) j ks acc = zern_loop za (T1 (drop 2 q')) j ks acc"
    for ks acc
    using len tl by (rule zern_loop_masked_cong)
  have loop': "zern_loop za (T1 (drop 2 q)) j ks = zern_loop za (T1 (drop 2 q')) j ks" for ks
    by (rule ext) (rule loop)
  show ?thesis
    by (simp add: Zernike_psf_def hd loop' assms(1))
qed

text \<open>
  Claim C6. The statement is about the constructor from the assignment of the mode
  mask on, for any coefficients and cutoff (\<^verbatim>\<open>Zernike.__init__\<close> runs it with the literal
  and cutoff 0, where no mask entry is 0). For every star j and every mode k whose
  mask entry is 0, \<^verbatim>\<open>cache[j][k]\<close> is the all-zero array of the cutout shape; and two
  optical parameter vectors of one length that differ only at entries \<open>2 + k\<close> with
  mask entry k equal to 0 give the same result of \<^verbatim>\<open>mean\<close>.
\<close>

theorem masked_modes_contribute_nothing:
  assumes "Zernike_build b z zp cutoff = Inr (Zernike b' za)"
  shows "(\<forall>j<length (xc b). \<forall>k<nk z. mode_mask za ! k = 0 \<longrightarrow>
            cache_get (cache za) j k =
              Inr (T2 (replicate (fst (shape b)) (replicate (snd (shape b)) 0))))
       \<and> (length q = length q'
            \<and> (\<forall>i<length q. q ! i \<noteq> q' ! i \<longrightarrow>
                  2 \<le> i \<and> i - 2 < length (mode_mask za) \<and> mode_mask za ! (i - 2) = 0)
          \<longrightarrow> mean L (Zernike b' za) flux xshift yshift bkg (T1 q) nrm =
              mean L (Zernike b' za) flux xshift yshift bkg (T1 q') nrm)"
proof (intro conjI allI impI)
  fix j k
  assume "j < length (xc b)" "k < nk z" "mode_mask za ! k = 0"
  with Zernike_build_cache [OF assms]
  show "cache_get (cache za) j k =
      Inr (T2 (replicate (fst (shape b)) (replicate (snd (shape b)) 0)))"
    by (simp add: cache_get_def zeros_def)
next
  assume h: "length q = length q'
            \<and> (\<forall>i<length q. q ! i \<noteq> q' ! i \<longrightarrow>
                  2 \<le> i \<and> i - 2 < length (mode_mask za) \<and> mode_mask za ! (i - 2) = 0)"
  have "Zernike_psf b' za dx dy (T1 q) j = Zernike_psf b' za dx dy (T1 q') j" for dx dy j
    using h by (intro Zernike_psf_masked_cong) auto
  then show "mean L (Zernike b' za) flux xshift yshift bkg (T1 q) nrm =
              mean L (Zernike b' za) flux xshift yshift bkg (T1 q') nrm"
    by (simp add: mean_def evaluate_def)
qed

lemma Zernike_build_example:
  "Zernike_build (Model_init (1, 2) 0 0 [0] [0] 2 ''chi2'' (T2 [[1]])) \<lparr> nk = 2, mtab = [0, 1] \<rparr>
     [0, 1 / 2] 0 =
   Inr (Zernike (Model_init (1, 2) 0 0 [0] [0] 2 ''chi2'' (T2 [[1]]))
     \<lparr> z_basis = \<lparr> nk = 2, mtab = [0, 1] \<rparr>, zpars = [0, 1 / 2], mode_mask = [0, 1],
       cache = [[T2 [[0, 0]], T2 [[1, 1]]]],
       coords = [(T2 [[0, 1]], T2 [[0, 0]])] \<rparr>)"
  by (simp add: Zernike_build_def star_entry_def cache_entry_def angular_def get_polar_coords_def
      Model_init_def init_grid_def mgrid_axis_def index_def lift2_def lift1_def bc_mat_def
      bc_row_def as_T2_def atan2_def zeros_def Let_def numeral_2_eq_2 upt_rec)

lemma Zernike_mean_example:
  "mean ext_example (Zernike (Model_init (1, 2) 0 0 [0] [0] 2 ''chi2'' (T2 [[1]]))
     \<lparr> z_basis = \<lparr> nk = 2, mtab = [0, 1] \<rparr>, zpars = [0, 1 / 2], mode_mask = [0, 1],
       cache = [[T2 [[0, 0]], T2 [[1, 1]]]],
       coords = [(T2 [[0, 1]], T2 [[0, 0]])] \<rparr>) [100] 0 0 2 (T1 [1, 1, 5, 0]) False
   = Inr (T2 [[102, 2 + 100 * exp (- 1)]])"
  by (simp add: mean_def evaluate_def offsets_def Zernike_psf_def cache_get_def iadd_def
      Model_init_def init_grid_def mgrid_axis_def index_def lift2_def lift1_def bc_mat_def
      bc_row_def as_T2_def zeros_def Let_def numeral_2_eq_2 upt_rec py_sum_def tsum_def)

theorem masked_modes_contribute_nothing_witness:
  "Zernike_build (Model_init (1, 2) 0 0 [0] [0] 2 ''chi2'' (T2 [[1]])) \<lparr> nk = 2, mtab = [0, 1] \<rparr>
     [0, 1 / 2] 0 =
   Inr (Zernike (Model_init (1, 2) 0 0 [0] [0] 2 ''chi2'' (T2 [[1]]))
     \<lparr> z_basis = \<lparr> nk = 2, mtab = [0, 1] \<rparr>, zpars = [0, 1 / 2], mode_mask = [0, 1],
       cache = [[T2 [[0, 0]], T2 [[1, 1]]]],
       coords = [(T2 [[0, 1]], T2 [[0, 0]])] \<rparr>)
   \<and> cache_get [[T2 [[0, 0]], T2 [[1, 1]]]] 0 0 = Inr (T2 [[0, 0]])
   \<and> mean ext_example (Zernike (Model_init (1, 2) 0 0 [0] [0] 2 ''chi2'' (T2 [[1]]))
     \<lparr> z_basis = \<lparr> nk = 2, mtab = [0, 1] \<rparr>, zpars = [0, 1 / 2], mode_mask = [0, 1],
       cache = [[T2 [[0, 0]], T2 [[1, 1]]]],
       coords = [(T2 [[0, 1]], T2 [[0, 0]])] \<rparr>) [100] 0 0 2 (T1 [1, 1, 7, 0]) False
     = Inr (T2 [[102, 2 + 100 * exp (- 1)]])"
proof -
  let ?b = "Model_init (1, 2) 0 0 [0] [0] 2 ''chi2'' (T2 [[1]])"
  let ?za = "\<lparr> z_basis = \<lparr> nk = 2, mtab = [0, 1] \<rparr>, zpars = [0, 1 / 2], mode_mask = [0, 1],
       cache = [[T2 [[0, 0]], T2 [[1, 1]]]],
       coords = [(T2 [[0, 1]], T2 [[0, 0]])] \<rparr>"
  note inst = masked_modes_contribute_nothing [OF Zernike_build_example,
      of "[1, 1, 5, 0]" "[1, 1, 7, 0]" ext_example "[100]" 0 0 2 False]
  have j: "(0::nat) < length (xc ?b)" and k: "(0::nat) < nk \<lparr> nk = 2, mtab = [0, 1] \<rparr>"
    and mk: "mode_mask ?za ! 0 = 0"
    by (simp_all add: Model_init_def)
  have c: "cache_get (cache ?za) 0 0 =
      Inr (T2 (replicate (fst (shape ?b)) (replicate (snd (shape ?b)) 0)))"
    using inst j k mk by blast
  have d: "\<forall>i<length [1, 1, 5, 0 :: real]. [1, 1, 5, 0 :: real] ! i \<noteq> [1, 1, 7, 0] ! i \<longrightarrow>
      2 \<le> i \<and> i - 2 < length (mode_mask ?za) \<and> mode_mask ?za ! (i - 2) = 0"
    by (auto simp: nth_Cons' split: if_splits)
  have "mean ext_example (Zernike ?b ?za) [100] 0 0 2 (T1 [1, 1, 5, 0]) False =
        mean ext_example (Zernike ?b ?za) [100] 0 0 2 (T1 [1, 1, 7, 0]) False"
    using inst d by simp
  moreover have "cache_get [[T2 [[0, 0]], T2 [[1, 1]]]] 0 0 = Inr (T2 [[0, 0]])"
    using c by (simp add: Model_init_def numeral_2_eq_2)
  ultimately show ?thesis
    using Zernike_build_example Zernike_mean_example by simp
qed

text \<open>With the literal and cutoff 0, as \<^verbatim>\<open>Zernike.__init__\<close> runs it, every mode is enabled.\<close>

lemma literal_mask_all_set:
  "map (\<lambda>v. if \<bar>v\<bar> > 0 then 1 else 0) zpars_literal = (replicate 15 1 :: int list)"
  by (simp add: zpars_literal_def numeral_eq_Suc)

section \<open>The mean image of the Gaussian and the Zernike model\<close>
















end
